theory Spec2Isabelle
  imports Main "HOL-Library.AList"
begin

section \<open>The LTTng tracing interface of tracetools\_trace\<close>

text \<open>
  A shallow embedding of \<^verbatim>\<open>tracetools_trace/tools/lttng_impl.py\<close>. Python strings are
  \<^typ>\<open>string\<close>: a \<^typ>\<open>char\<close> is a character with a code point below 256 (text with
  other characters is outside the model). Python's unbounded integers are \<^typ>\<open>int\<close>, exceptions
  are values of the type \<open>error\<close>, and every interaction with the outside (environment
  variables, the file system, subprocesses, the \<^verbatim>\<open>lttng\<close> module) is a \<open>call\<close>
  appended to a trace, answered by a \<open>world\<close> that may look at the calls made so far.
\<close>

subsection \<open>Strings\<close>

text \<open>
  \<^verbatim>\<open>str.strip()\<close> removes leading and trailing whitespace, the characters of which
  \<^verbatim>\<open>str.isspace\<close> is true. Below 256 these are the code points 9 to 13, 28 to 32,
  133 (next line) and 160 (no-break space).
\<close>

definition isspace :: "char \<Rightarrow> bool" where
  "isspace c = (of_char c \<in> {9, 10, 11, 12, 13, 28, 29, 30, 31, 32, 133, 160 :: nat})"

definition strip_chars :: "(char \<Rightarrow> bool) \<Rightarrow> string \<Rightarrow> string" where
  "strip_chars p s = rev (dropWhile p (rev (dropWhile p s)))"

definition strip :: "string \<Rightarrow> string" where
  "strip s = strip_chars isspace s"

text \<open>\<^verbatim>\<open>s.strip('\n')\<close> removes leading and trailing newlines only.\<close>

definition strip_newlines :: "string \<Rightarrow> string" where
  "strip_newlines s = strip_chars (\<lambda>c. c = CHR 0x0A) s"

text \<open>
  The decimal digits \<^verbatim>\<open>0\<close> to \<^verbatim>\<open>9\<close> are the code points 48 to 57. \<^verbatim>\<open>str.isdigit()\<close>
  is true of a string that is not empty and whose characters all are digits; below 256 the
  digits are the decimal digits and the superscripts two, three and one (178, 179, 185).
\<close>

definition isdecimal_char :: "char \<Rightarrow> bool" where
  "isdecimal_char c = (48 \<le> (of_char c :: nat) \<and> (of_char c :: nat) \<le> 57)"

definition isdigit_char :: "char \<Rightarrow> bool" where
  "isdigit_char c = (isdecimal_char c \<or> of_char c \<in> {178, 179, 185 :: nat})"

definition isdigit :: "string \<Rightarrow> bool" where
  "isdigit s = (s \<noteq> [] \<and> list_all isdigit_char s)"

text \<open>The number a string of decimal digits denotes.\<close>

definition decimal_value :: "string \<Rightarrow> int" where
  "decimal_value s = foldl (\<lambda>acc c. 10 * acc + (int (of_char c) - 48)) 0 s"

text \<open>
  \<^verbatim>\<open>os.path.join(a, b)\<close> on POSIX: an absolute \<open>b\<close> replaces \<open>a\<close>; otherwise \<open>b\<close> is
  appended, after a separator unless \<open>a\<close> is empty or already ends with one.
\<close>

definition path_join :: "string \<Rightarrow> string \<Rightarrow> string" where
  "path_join a b =
     (if b \<noteq> [] \<and> hd b = CHR ''/'' then b
      else if a = [] \<or> last a = CHR ''/'' then a @ b
      else a @ ''/'' @ b)"

subsection \<open>Errors\<close>

text \<open>
  A \<^verbatim>\<open>ValueError\<close> carries the string \<^verbatim>\<open>int\<close> refused (the text of its message is not
  modelled).
\<close>

datatype error =
    RuntimeError string
  | KeyError string
  | ValueError string
  | AssertionError

text \<open>
  \<^verbatim>\<open>int(s)\<close> for a string \<open>s\<close> of which \<^verbatim>\<open>s.isdigit()\<close> is true, the only strings the
  source converts: such a string has no sign, no space and no underscore. It is converted
  when all its digits are decimal and there are at most 4300 of them (the default of
  \<^verbatim>\<open>sys.int_max_str_digits\<close>, which counts leading zeros too); otherwise \<^verbatim>\<open>int\<close>
  raises \<^verbatim>\<open>ValueError\<close>.
\<close>

definition int_of_digit_string :: "string \<Rightarrow> error + int" where
  "int_of_digit_string s =
     (if list_all isdecimal_char s \<and> length s \<le> 4300 then Inr (decimal_value s)
      else Inl (ValueError s))"

subsection \<open>The objects of the lttng module\<close>

datatype domain_type = DOMAIN_UST | DOMAIN_KERNEL
datatype buffer_type = BUFFER_PER_UID | BUFFER_GLOBAL
datatype output_type = EVENT_MMAP
datatype event_type = EVENT_TRACEPOINT
datatype loglevel_type = EVENT_LOGLEVEL_ALL

record Domain =
  domain_type :: domain_type
  buf_type :: buffer_type

record ChannelAttr =
  overwrite :: int
  subbuf_size :: int
  num_subbuf :: int
  switch_timer_interval :: int
  read_timer_interval :: int
  output_mode :: output_type

record Channel =
  channel_name :: string
  attr :: ChannelAttr

record Event =
  event_name :: string
  event_type :: event_type
  loglevel_type :: loglevel_type

record EventContext =
  ctx :: int

text \<open>A handle is an opaque object; the model identifies it by a number.\<close>

type_synonym Handle = nat

subsection \<open>Calls to the outside and the world that answers them\<close>

datatype call =
    GetEnv string
  | IsFile string
  | ReadFile string
  | IsDir string
  | RunPs int
  | RunLttngListKernel
  | RunSessiond
  | SessionDaemonAlive
  | Create string string
  | Destroy string
  | Start string
  | Stop string
  | NewHandle string Domain
  | EnableChannel Handle Channel
  | EnableEvent Handle Event string
  | AddContext Handle EventContext

type_synonym trace = "call list"

text \<open>
  Each answer of the world is a function of the calls made before it, so that a second
  \<^verbatim>\<open>lttng.create\<close> or \<^verbatim>\<open>lttng.session_daemon_alive\<close> may answer differently
  from the first. A subprocess answers with its return code and the text of the stream
  the source reads (standard output for \<^verbatim>\<open>ps\<close>, standard error for
  \<^verbatim>\<open>lttng list -k\<close>). Four parts are not calls: \<open>strerror\<close> and \<open>str_context\<close> are
  the pure \<^verbatim>\<open>lttng.strerror\<close> and \<^verbatim>\<open>str\<close> of an event context; \<open>context_map\<close> is
  the module-level table of the same name, built from \<^verbatim>\<open>CONTEXT_TYPE_CONSTANTS_MAP\<close>
  of \<^verbatim>\<open>names.py\<close> (a name mapped to \<^verbatim>\<open>None\<close> and a name that is not a key look
  the same through \<^verbatim>\<open>context_map.get(name, None)\<close>); \<open>set_order\<close> proposes the order
  in which Python iterates \<^verbatim>\<open>set(xs)\<close>, which the language leaves open.
\<close>

record world =
  environ_get :: "trace \<Rightarrow> string \<Rightarrow> string option"
  path_isfile :: "trace \<Rightarrow> string \<Rightarrow> bool"
  file_read :: "trace \<Rightarrow> string \<Rightarrow> string"
  path_isdir :: "trace \<Rightarrow> string \<Rightarrow> bool"
  run_ps :: "trace \<Rightarrow> int \<Rightarrow> int \<times> string"
  run_lttng_list_kernel :: "trace \<Rightarrow> int \<times> string"
  lttng_session_daemon_alive :: "trace \<Rightarrow> int"
  lttng_create :: "trace \<Rightarrow> string \<Rightarrow> string \<Rightarrow> int"
  lttng_destroy :: "trace \<Rightarrow> string \<Rightarrow> int"
  lttng_start :: "trace \<Rightarrow> string \<Rightarrow> int"
  lttng_stop :: "trace \<Rightarrow> string \<Rightarrow> int"
  lttng_Handle :: "trace \<Rightarrow> string \<Rightarrow> Domain \<Rightarrow> Handle option"
  lttng_enable_channel :: "trace \<Rightarrow> Handle \<Rightarrow> Channel \<Rightarrow> int"
  lttng_enable_event :: "trace \<Rightarrow> Handle \<Rightarrow> Event \<Rightarrow> string \<Rightarrow> int"
  lttng_add_context :: "trace \<Rightarrow> Handle \<Rightarrow> EventContext \<Rightarrow> int"
  strerror :: "int \<Rightarrow> string"
  str_context :: "EventContext \<Rightarrow> string"
  context_map :: "string \<Rightarrow> int option"
  set_order :: "string list \<Rightarrow> string list"

text \<open>
  \<^verbatim>\<open>set(xs)\<close>, as the list of its elements in iteration order: the order the world
  proposes when that is a listing of the elements of \<open>xs\<close> without repetition, and the
  listing \<open>remdups xs\<close> otherwise. Every iteration order of the set is the choice of
  some world.
\<close>

definition py_set :: "world \<Rightarrow> string list \<Rightarrow> string list" where
  "py_set w xs =
     (let ys = set_order w xs in
      if distinct ys \<and> set ys = set xs then ys else remdups xs)"

text \<open>A computation takes the trace so far and returns its value with the extended trace.\<close>

type_synonym 'a io = "trace \<Rightarrow> 'a \<times> trace"

definition ask :: "(trace \<Rightarrow> 'a) \<Rightarrow> call \<Rightarrow> 'a io" where
  "ask answer c tr = (answer tr, tr @ [c])"

subsection \<open>Probing the environment\<close>

text \<open>
  \<^verbatim>\<open>get_lttng_home\<close>: \<^verbatim>\<open>os.environ.get('LTTNG_HOME') or os.environ.get('HOME')\<close>.
  The second variable is read only when the first is unset or empty.
\<close>

definition truthy :: "string option \<Rightarrow> bool" where
  "truthy v = (case v of None \<Rightarrow> False | Some s \<Rightarrow> s \<noteq> [])"

definition get_lttng_home :: "world \<Rightarrow> string option io" where
  "get_lttng_home w tr =
     (let (v, tr1) = ask (\<lambda>t. environ_get w t ''LTTNG_HOME'') (GetEnv ''LTTNG_HOME'') tr in
      if truthy v then (v, tr1)
      else ask (\<lambda>t. environ_get w t ''HOME'') (GetEnv ''HOME'') tr1)"

definition pid_file_path :: "string \<Rightarrow> string" where
  "pid_file_path lttng_home = path_join (path_join lttng_home ''.lttng'') ''lttng-sessiond.pid''"

definition get_session_daemon_pid :: "world \<Rightarrow> (error + int option) io" where
  "get_session_daemon_pid w tr =
     (let (lttng_home, tr1) = get_lttng_home w tr in
      if \<not> truthy lttng_home then (Inr None, tr1)
      else
        let lttng_sessiond_pid = pid_file_path (case lttng_home of Some h \<Rightarrow> h | None \<Rightarrow> []);
            (isfile, tr2) = ask (\<lambda>t. path_isfile w t lttng_sessiond_pid)
                                (IsFile lttng_sessiond_pid) tr1 in
        if \<not> isfile then (Inr None, tr2)
        else
          let (content, tr3) = ask (\<lambda>t. file_read w t lttng_sessiond_pid)
                                   (ReadFile lttng_sessiond_pid) tr2;
              pid = strip content in
          if \<not> isdigit pid then (Inr None, tr3)
          else (case int_of_digit_string pid of
                  Inl e \<Rightarrow> (Inl e, tr3)
                | Inr n \<Rightarrow> (Inr (Some n), tr3)))"

text \<open>
  \<^verbatim>\<open>is_session_daemon_unreachable\<close>; a \<^verbatim>\<open>ValueError\<close> of the PID lookup passes
  through it.
\<close>

definition is_session_daemon_unreachable :: "world \<Rightarrow> (error + bool) io" where
  "is_session_daemon_unreachable w tr =
     (case get_session_daemon_pid w tr of
        (Inl e, tr1) \<Rightarrow> (Inl e, tr1)
      | (Inr None, tr1) \<Rightarrow> (Inr False, tr1)
      | (Inr (Some p), tr1) \<Rightarrow>
          let ((returncode, stdout), tr2) = ask (\<lambda>t. run_ps w t p) (RunPs p) tr1 in
          (Inr (1 = returncode \<or> ''lttng-sessiond'' \<noteq> strip stdout), tr2))"

definition is_kernel_tracer_available :: "world \<Rightarrow> (bool \<times> string option) io" where
  "is_kernel_tracer_available w tr =
     (let ((returncode, stderr), tr1) = ask (run_lttng_list_kernel w) RunLttngListKernel tr in
      if 0 \<noteq> returncode then ((False, Some (strip_newlines stderr)), tr1)
      else ((True, None), tr1))"


subsection \<open>Computations that may raise\<close>

type_synonym 'a result = "(error + 'a) io"

definition ok :: "'a \<Rightarrow> 'a result" where
  "ok x tr = (Inr x, tr)"

definition raise :: "error \<Rightarrow> 'a result" where
  "raise e tr = (Inl e, tr)"

text \<open>Sequencing: an exception of the first part skips the second.\<close>

definition seq :: "'a result \<Rightarrow> ('a \<Rightarrow> 'b result) \<Rightarrow> 'b result" where
  "seq m f tr = (case m tr of (Inl e, tr1) \<Rightarrow> (Inl e, tr1) | (Inr x, tr1) \<Rightarrow> f x tr1)"

subsection \<open>Session lifecycle: start, stop, destroy\<close>

definition start :: "world \<Rightarrow> string \<Rightarrow> unit result" where
  "start w session_name tr =
     (let (result, tr1) = ask (\<lambda>t. lttng_start w t session_name) (Start session_name) tr in
      if result < 0
      then raise (RuntimeError (''failed to start tracing: '' @ strerror w result)) tr1
      else ok () tr1)"

definition stop :: "world \<Rightarrow> string \<Rightarrow> bool \<Rightarrow> unit result" where
  "stop w session_name ignore_error tr =
     (let (result, tr1) = ask (\<lambda>t. lttng_stop w t session_name) (Stop session_name) tr in
      if result < 0 \<and> \<not> ignore_error
      then raise (RuntimeError (''failed to stop tracing: '' @ strerror w result)) tr1
      else ok () tr1)"

definition destroy :: "world \<Rightarrow> string \<Rightarrow> bool \<Rightarrow> unit result" where
  "destroy w session_name ignore_error tr =
     (let (result, tr1) = ask (\<lambda>t. lttng_destroy w t session_name) (Destroy session_name) tr in
      if result < 0 \<and> \<not> ignore_error
      then raise (RuntimeError (''failed to destroy tracing session: '' @ strerror w result)) tr1
      else ok () tr1)"

subsection \<open>Events, session, handle, channel\<close>

text \<open>\<^verbatim>\<open>_create_events\<close>: one event per name, in the iteration order of the set.\<close>

fun create_events :: "string list \<Rightarrow> Event list" where
  "create_events [] = []"
| "create_events (name # event_names) =
     \<lparr>event_name = name, event_type = EVENT_TRACEPOINT,
      loglevel_type = EVENT_LOGLEVEL_ALL\<rparr> # create_events event_names"

text \<open>
  \<^verbatim>\<open>_create_session\<close>: on the result -28 the session is destroyed (with the default
  \<^verbatim>\<open>ignore_error=False\<close>, so the destroy may raise) and created again; the result of
  the last create decides.
\<close>

definition create_session :: "world \<Rightarrow> string \<Rightarrow> string \<Rightarrow> unit result" where
  "create_session w session_name full_path =
     seq (\<lambda>tr.
            let (result, tr1) = ask (\<lambda>t. lttng_create w t session_name full_path)
                                    (Create session_name full_path) tr in
            if -28 = result
            then seq (destroy w session_name False)
                     (\<lambda>_ tr2. let (result2, tr3) =
                                 ask (\<lambda>t. lttng_create w t session_name full_path)
                                     (Create session_name full_path) tr2
                               in ok result2 tr3) tr1
            else ok result tr1)
         (\<lambda>result.
            if result < 0
            then raise (RuntimeError (''session creation failed: '' @ strerror w result))
            else ok ())"

definition create_handle :: "world \<Rightarrow> string \<Rightarrow> Domain \<Rightarrow> Handle result" where
  "create_handle w session_name domain tr =
     (let (handle, tr1) = ask (\<lambda>t. lttng_Handle w t session_name domain)
                              (NewHandle session_name domain) tr in
      case handle of
        None \<Rightarrow> raise (RuntimeError ''handle creation failed'') tr1
      | Some h \<Rightarrow> ok h tr1)"

definition enable_channel :: "world \<Rightarrow> Handle \<Rightarrow> Channel \<Rightarrow> unit result" where
  "enable_channel w handle channel tr =
     (let (result, tr1) = ask (\<lambda>t. lttng_enable_channel w t handle channel)
                              (EnableChannel handle channel) tr in
      if result < 0
      then raise (RuntimeError (''channel enabling failed: '' @ strerror w result)) tr1
      else ok () tr1)"

fun enable_events :: "world \<Rightarrow> Handle \<Rightarrow> Event list \<Rightarrow> string \<Rightarrow> unit result" where
  "enable_events w handle [] chan_name tr = ok () tr"
| "enable_events w handle (event # events_list) chan_name tr =
     (let (result, tr1) = ask (\<lambda>t. lttng_enable_event w t handle event chan_name)
                              (EnableEvent handle event chan_name) tr in
      if result < 0
      then raise (RuntimeError (''event enabling failed: '' @ strerror w result)) tr1
      else enable_events w handle events_list chan_name tr1)"

subsection \<open>Context fields\<close>

definition context_field_name_to_type :: "world \<Rightarrow> string \<Rightarrow> int option" where
  "context_field_name_to_type w context_field_name = context_map w context_field_name"

text \<open>
  \<^verbatim>\<open>_create_context_list\<close>: the loop over the set, with the list built so far; the
  first name without a type raises.
\<close>

fun create_context_list_from :: "world \<Rightarrow> EventContext list \<Rightarrow> string list \<Rightarrow> error + EventContext list" where
  "create_context_list_from w context_list [] = Inr context_list"
| "create_context_list_from w context_list (context_field_name # rest) =
     (case context_field_name_to_type w context_field_name of
        Some context_type \<Rightarrow>
          create_context_list_from w (context_list @ [\<lparr>ctx = context_type\<rparr>]) rest
      | None \<Rightarrow>
          Inl (RuntimeError (''failed to find context type: '' @ context_field_name)))"

definition create_context_list :: "world \<Rightarrow> string list \<Rightarrow> error + EventContext list" where
  "create_context_list w context_fields = create_context_list_from w [] context_fields"

text \<open>
  The \<^verbatim>\<open>context_fields\<close> argument is a list, a set (given by its iteration order) or
  a dictionary from domain name to list; the event arguments are lists or sets.
\<close>

datatype context_fields =
    FieldList "string list"
  | FieldSet "string list"
  | FieldDict "string \<Rightarrow> string list option"

datatype names = NameList "string list" | NameSet "string list"

text \<open>
  \<^verbatim>\<open>_normalize_contexts_dict\<close>. The dictionaries are association lists in insertion
  order; \<open>AList.update\<close> is the assignment \<^verbatim>\<open>d[k] = v\<close> (an existing key keeps its
  place, a new one goes last). The comprehensions run item by item, so the first item
  that raises ends them. \<^verbatim>\<open>context_fields[d]\<close> raises \<^verbatim>\<open>KeyError\<close> for a missing key.
\<close>

definition enabled_handles :: "(string \<times> Handle option) list \<Rightarrow> (string \<times> Handle) list" where
  "enabled_handles handles =
     List.map_filter (\<lambda>(domain, handle). map_option (\<lambda>h. (domain, h)) handle) handles"

fun contexts_comprehension ::
  "(string \<Rightarrow> error + EventContext list) \<Rightarrow> (Handle \<times> EventContext list) list \<Rightarrow>
   (string \<times> Handle) list \<Rightarrow> error + (Handle \<times> EventContext list) list" where
  "contexts_comprehension val contexts_dict [] = Inr contexts_dict"
| "contexts_comprehension val contexts_dict ((d, h) # items) =
     (case val d of
        Inl e \<Rightarrow> Inl e
      | Inr context_list \<Rightarrow>
          contexts_comprehension val (AList.update h context_list contexts_dict) items)"

definition normalize_contexts_dict ::
  "world \<Rightarrow> (string \<times> Handle option) list \<Rightarrow> context_fields \<Rightarrow>
   error + (Handle \<times> EventContext list) list" where
  "normalize_contexts_dict w handles context_fields =
     (let handles = enabled_handles handles in
      case context_fields of
        FieldSet fs \<Rightarrow>
          contexts_comprehension (\<lambda>_. create_context_list w fs) [] handles
      | FieldDict fd \<Rightarrow>
          contexts_comprehension
            (\<lambda>d. case fd d of
                    None \<Rightarrow> Inl (KeyError d)
                  | Some l \<Rightarrow> create_context_list w (py_set w l)) [] handles
      | FieldList _ \<Rightarrow> Inl AssertionError)"

fun add_context_list :: "world \<Rightarrow> Handle \<Rightarrow> EventContext list \<Rightarrow> unit result" where
  "add_context_list w handle [] tr = ok () tr"
| "add_context_list w handle (context # contexts_list) tr =
     (let (result, tr1) = ask (\<lambda>t. lttng_add_context w t handle context)
                              (AddContext handle context) tr in
      if result < 0
      then raise (RuntimeError (''failed to add context field '' @ str_context w context
                                @ '': '' @ strerror w result)) tr1
      else add_context_list w handle contexts_list tr1)"

fun add_context :: "world \<Rightarrow> (Handle \<times> EventContext list) list \<Rightarrow> unit result" where
  "add_context w [] = ok ()"
| "add_context w ((handle, contexts_list) # contexts) =
     seq (add_context_list w handle contexts_list) (\<lambda>_. add_context w contexts)"


subsection \<open>Setting up a session\<close>

record setup_args =
  session_name :: string
  base_path :: string
  append_trace :: bool
  ros_events :: names
  kernel_events :: names
  context_fields :: context_fields
  channel_name_ust :: string
  channel_name_kernel :: string
  subbuffer_size_ust :: int
  subbuffer_size_kernel :: int

definition names_len :: "names \<Rightarrow> nat" where
  "names_len ns = (case ns of NameList xs \<Rightarrow> length xs | NameSet xs \<Rightarrow> length xs)"

text \<open>\<^verbatim>\<open>if not isinstance(x, set): x = set(x)\<close>\<close>

definition names_to_set :: "world \<Rightarrow> names \<Rightarrow> string list" where
  "names_to_set w ns = (case ns of NameSet xs \<Rightarrow> xs | NameList xs \<Rightarrow> py_set w xs)"

text \<open>\<^verbatim>\<open>if isinstance(context_fields, list): context_fields = set(context_fields)\<close>\<close>

definition fields_to_set :: "world \<Rightarrow> context_fields \<Rightarrow> context_fields" where
  "fields_to_set w cf = (case cf of FieldList xs \<Rightarrow> FieldSet (py_set w xs) | _ \<Rightarrow> cf)"

definition dir_exists_message :: "string \<Rightarrow> string" where
  "dir_exists_message full_path =
     ''trace directory already exists, use the append option to append to it: '' @ full_path"

definition unreachable_message :: string where
  "unreachable_message =
     ''lttng-sessiond seems to exist, but is unreachable. '' @
     ''If using two containers with the same HOME directory, set the LTTNG_HOME environment '' @
     ''variable to the path to a unique directory for each container and make sure that the '' @
     ''directory exists. See: https://bugs.lttng.org/issues/1371''"

definition kernel_tracer_message :: "string \<Rightarrow> string" where
  "kernel_tracer_message message =
     ''kernel tracer is not available: '' @ message @ [CHR 0x0A] @
     ''  cannot use kernel events:'' @ [CHR 0x0A] @
     ''    '' @ [CHR 0x27] @ ''ros2 trace'' @ [CHR 0x27] @ '' command: cannot use '' @
       [CHR 0x27] @ ''-k'' @ [CHR 0x27] @ '' option'' @ [CHR 0x0A] @
     ''    '' @ [CHR 0x27] @ ''Trace'' @ [CHR 0x27] @ '' action: cannot set '' @
       [CHR 0x27] @ ''events_kernel'' @ [CHR 0x27] @ ''/'' @
       [CHR 0x27] @ ''events-kernel'' @ [CHR 0x27] @ '' list'' @ [CHR 0x0A] @
     ''  install the kernel tracer, e.g., on Ubuntu, install lttng-modules-dkms'' @ [CHR 0x0A] @
     ''  see: https://github.com/ros2/ros2_tracing#building''"

definition domain_ust :: Domain where
  "domain_ust = \<lparr>domain_type = DOMAIN_UST, buf_type = BUFFER_PER_UID\<rparr>"

definition domain_kernel :: Domain where
  "domain_kernel = \<lparr>domain_type = DOMAIN_KERNEL, buf_type = BUFFER_GLOBAL\<rparr>"

definition channel_ust :: "setup_args \<Rightarrow> Channel" where
  "channel_ust a =
     \<lparr>channel_name = channel_name_ust a,
      attr = \<lparr>overwrite = 0, subbuf_size = subbuffer_size_ust a, num_subbuf = 2,
              switch_timer_interval = 0, read_timer_interval = 200,
              output_mode = EVENT_MMAP\<rparr>\<rparr>"

definition channel_kernel :: "setup_args \<Rightarrow> Channel" where
  "channel_kernel a =
     \<lparr>channel_name = channel_name_kernel a,
      attr = \<lparr>overwrite = 0, subbuf_size = subbuffer_size_kernel a, num_subbuf = 2,
              switch_timer_interval = 0, read_timer_interval = 200,
              output_mode = EVENT_MMAP\<rparr>\<rparr>"

text \<open>
  Lines 191 to 206 of \<^verbatim>\<open>setup\<close>: spawn a session daemon if none is alive (the result
  of the spawn is not looked at), refuse an unreachable one, and require a live one.
\<close>

definition ensure_session_daemon :: "world \<Rightarrow> unit result" where
  "ensure_session_daemon w tr =
     (let (alive, tr1) = ask (lttng_session_daemon_alive w) SessionDaemonAlive tr;
          tr2 = (if alive = 0 then snd (ask (\<lambda>_. ()) RunSessiond tr1) else tr1) in
      seq (is_session_daemon_unreachable w) (\<lambda>unreachable tr3.
        if unreachable then raise (RuntimeError unreachable_message) tr3
        else
          let (alive2, tr4) = ask (lttng_session_daemon_alive w) SessionDaemonAlive tr3 in
          if alive2 = 0 then raise (RuntimeError ''failed to start lttng session daemon'') tr4
          else ok () tr4) tr2)"

text \<open>Lines 208 to 220: the kernel tracer is probed only if there are kernel events.\<close>

definition check_kernel_tracer :: "world \<Rightarrow> names \<Rightarrow> unit result" where
  "check_kernel_tracer w events tr =
     (if 0 < names_len events then
        let ((kernel_tracer_available, message), tr1) = is_kernel_tracer_available w tr in
        if \<not> kernel_tracer_available
        then raise (RuntimeError (kernel_tracer_message
                      (case message of Some m \<Rightarrow> m | None \<Rightarrow> ''None''))) tr1
        else ok () tr1
      else ok () tr)"

text \<open>
  Lines 275 to 285, for one domain: without events the handle stays \<^verbatim>\<open>None\<close>;
  otherwise the handle is created, the channel enabled and then each event.
\<close>

definition setup_domain ::
  "world \<Rightarrow> bool \<Rightarrow> string \<Rightarrow> Domain \<Rightarrow> Channel \<Rightarrow> Event list \<Rightarrow> Handle option result" where
  "setup_domain w enabled name domain channel events_list =
     (if enabled then
        seq (create_handle w name domain) (\<lambda>handle.
        seq (enable_channel w handle channel) (\<lambda>_.
        seq (enable_events w handle events_list (channel_name channel)) (\<lambda>_.
        ok (Some handle))))
      else ok None)"

text \<open>Lines 222 to 292: the session, the two domains and the context fields.\<close>

definition configure_session :: "world \<Rightarrow> setup_args \<Rightarrow> string \<Rightarrow> string result" where
  "configure_session w a full_path =
     (let ros_set = names_to_set w (ros_events a);
          kernel_set = names_to_set w (kernel_events a);
          context_set = fields_to_set w (context_fields a);
          ust_enabled = (length ros_set > 0);
          kernel_enabled = (length kernel_set > 0);
          events_list_ust = create_events ros_set;
          events_list_kernel = create_events kernel_set in
      seq (create_session w (session_name a) full_path) (\<lambda>_.
      seq (setup_domain w ust_enabled (session_name a) domain_ust (channel_ust a)
             events_list_ust) (\<lambda>handle_ust.
      seq (setup_domain w kernel_enabled (session_name a) domain_kernel (channel_kernel a)
             events_list_kernel) (\<lambda>handle_kernel.
      case normalize_contexts_dict w
             [(''kernel'', handle_kernel), (''userspace'', handle_ust)] context_set of
        Inl e \<Rightarrow> raise e
      | Inr contexts_dict \<Rightarrow>
          seq (add_context w contexts_dict) (\<lambda>_. ok full_path)))))"

text \<open>
  \<^verbatim>\<open>setup\<close> (named \<open>setup_lttng\<close> here, since \<open>setup\<close> is a keyword of Isabelle).
\<close>

definition setup_lttng :: "world \<Rightarrow> setup_args \<Rightarrow> string result" where
  "setup_lttng w a tr =
     (if session_name a = [] then raise (RuntimeError ''empty session name'') tr
      else
        let full_path = path_join (base_path a) (session_name a);
            (isdir, tr1) = ask (\<lambda>t. path_isdir w t full_path) (IsDir full_path) tr in
        if isdir \<and> \<not> append_trace a
        then raise (RuntimeError (dir_exists_message full_path)) tr1
        else
          seq (ensure_session_daemon w) (\<lambda>_.
          seq (check_kernel_tracer w (kernel_events a)) (\<lambda>_.
          configure_session w a full_path)) tr1)"


subsection \<open>Sample worlds\<close>

text \<open>
  A world in which everything succeeds: a session daemon is alive, no PID file and no
  trace directory exist, every daemon call returns 0 and each new handle is numbered by
  the length of the trace at its creation.
\<close>

definition healthy_world :: world where
  "healthy_world =
     \<lparr>environ_get = (\<lambda>_ v. if v = ''HOME'' then Some ''/home/u'' else None),
      path_isfile = (\<lambda>_ _. False),
      file_read = (\<lambda>_ _. []),
      path_isdir = (\<lambda>_ _. False),
      run_ps = (\<lambda>_ _. (1, [])),
      run_lttng_list_kernel = (\<lambda>_. (0, [])),
      lttng_session_daemon_alive = (\<lambda>_. 1),
      lttng_create = (\<lambda>_ _ _. 0),
      lttng_destroy = (\<lambda>_ _. 0),
      lttng_start = (\<lambda>_ _. 0),
      lttng_stop = (\<lambda>_ _. 0),
      lttng_Handle = (\<lambda>tr _ _. Some (length tr)),
      lttng_enable_channel = (\<lambda>_ _ _. 0),
      lttng_enable_event = (\<lambda>_ _ _ _. 0),
      lttng_add_context = (\<lambda>_ _ _. 0),
      strerror = (\<lambda>_. ''daemon error''),
      str_context = (\<lambda>_. ''context''),
      context_map = [''vpid'' \<mapsto> 1, ''vtid'' \<mapsto> 2, ''procname'' \<mapsto> 3],
      set_order = remdups\<rparr>"

text \<open>The healthy world with a PID file of the given content under the home.\<close>

definition world_with_pid_file :: "string \<Rightarrow> world" where
  "world_with_pid_file content =
     healthy_world\<lparr>path_isfile := (\<lambda>_ p. p = ''/home/u/.lttng/lttng-sessiond.pid''),
                   file_read := (\<lambda>_ _. content)\<rparr>"

text \<open>
  A world with a stale session: the first create of a session returns -28, a later one
  returns 0, and every destroy returns the given code.
\<close>

definition stale_session_world :: "int \<Rightarrow> world" where
  "stale_session_world destroy_code =
     healthy_world\<lparr>lttng_create := (\<lambda>tr n p. if Create n p \<in> set tr then 0 else -28),
                   lttng_destroy := (\<lambda>_ _. destroy_code)\<rparr>"

text \<open>
  The healthy world with the PID 4242 recorded and the given answer of \<^verbatim>\<open>ps\<close> for it.
\<close>

definition world_with_process :: "int \<times> string \<Rightarrow> world" where
  "world_with_process ps_answer =
     (world_with_pid_file (''4242'' @ [CHR 0x0A]))
       \<lparr>run_ps := (\<lambda>_ p. if p = 4242 then ps_answer else (1, []))\<rparr>"

text \<open>
  The example of the specification: session \<^verbatim>\<open>s1\<close> under \<^verbatim>\<open>/tmp\<close>, two userspace
  events, no kernel events, one context field, and the default channel names and sizes.
\<close>

definition sample_args :: setup_args where
  "sample_args =
     \<lparr>session_name = ''s1'', base_path = ''/tmp'', append_trace = False,
      ros_events = NameSet [''e1'', ''e2''], kernel_events = NameList [],
      context_fields = FieldSet [''vpid''],
      channel_name_ust = ''ros2'', channel_name_kernel = ''kchan'',
      subbuffer_size_ust = 8 * 4096, subbuffer_size_kernel = 32 * 4096\<rparr>"

subsection \<open>Kinds of calls\<close>

text \<open>The calls of the daemon checks, of session creation and of domain configuration.\<close>

fun is_check_call :: "call \<Rightarrow> bool" where
  "is_check_call (GetEnv _) = True"
| "is_check_call (IsFile _) = True"
| "is_check_call (ReadFile _) = True"
| "is_check_call (RunPs _) = True"
| "is_check_call RunSessiond = True"
| "is_check_call SessionDaemonAlive = True"
| "is_check_call _ = False"

fun is_create_call :: "call \<Rightarrow> bool" where
  "is_create_call (Create _ _) = True"
| "is_create_call (Destroy _) = True"
| "is_create_call _ = False"

fun is_domain_call :: "call \<Rightarrow> bool" where
  "is_domain_call (NewHandle _ _) = True"
| "is_domain_call (EnableChannel _ _) = True"
| "is_domain_call (EnableEvent _ _ _) = True"
| "is_domain_call _ = False"

fun is_add_context_call :: "call \<Rightarrow> bool" where
  "is_add_context_call (AddContext _ _) = True"
| "is_add_context_call _ = False"

text \<open>The channel, event and context calls.\<close>

fun is_config_call :: "call \<Rightarrow> bool" where
  "is_config_call (EnableChannel _ _) = True"
| "is_config_call (EnableEvent _ _ _) = True"
| "is_config_call (AddContext _ _) = True"
| "is_config_call _ = False"

text \<open>A trace grows by calls of one kind.\<close>

definition grows_by :: "(call \<Rightarrow> bool) \<Rightarrow> trace \<Rightarrow> trace \<Rightarrow> bool" where
  "grows_by P tr tr' = (length tr \<le> length tr' \<and> take (length tr) tr' = tr
                        \<and> list_all P (drop (length tr) tr'))"

text \<open>The calls \<open>configure_session\<close> can make.\<close>

definition is_session_call :: "call \<Rightarrow> bool" where
  "is_session_call c = (is_create_call c \<or> is_domain_call c \<or> is_add_context_call c)"

text \<open>
  The healthy world without a kernel tracer: \<^verbatim>\<open>lttng list -k\<close> fails with a message.
\<close>

definition no_kernel_tracer_world :: world where
  "no_kernel_tracer_world =
     healthy_world\<lparr>run_lttng_list_kernel :=
       (\<lambda>_. (1, ''Error: Unable to list kernel events'' @ [CHR 0x0A]))\<rparr>"

text \<open>The sample arguments with one kernel event, and with no event at all.\<close>

definition kernel_args :: setup_args where
  "kernel_args = sample_args\<lparr>kernel_events := NameList [''sched_switch'']\<rparr>"

definition no_events_args :: setup_args where
  "no_events_args = sample_args\<lparr>ros_events := NameList []\<rparr>"

text \<open>
  The calls of \<^verbatim>\<open>setup\<close> in the healthy world up to the second liveness check, for the
  sample session.
\<close>

definition healthy_checks :: trace where
  "healthy_checks =
     [IsDir ''/tmp/s1'', SessionDaemonAlive, GetEnv ''LTTNG_HOME'', GetEnv ''HOME'',
      IsFile ''/home/u/.lttng/lttng-sessiond.pid'', SessionDaemonAlive]"

subsection \<open>The context plan of the specification\<close>

text \<open>
  The context descriptor a resolvable name stands for: the event context whose type is
  the entry of the name in the table.
\<close>

definition descriptor :: "world \<Rightarrow> string \<Rightarrow> EventContext" where
  "descriptor w n = \<lparr>ctx = (case context_map w n of Some t \<Rightarrow> t | None \<Rightarrow> 0)\<rparr>"

text \<open>
  The plan the specification describes for a per-domain mapping: for each enabled domain,
  in the order of the handles, its handle with the descriptors of the names supplied for
  that domain, taken as a set.
\<close>

definition dict_of_enabled :: "world \<Rightarrow> (string \<Rightarrow> string list option) \<Rightarrow>
    (string \<times> Handle) list \<Rightarrow> (Handle \<times> EventContext list) list" where
  "dict_of_enabled w fd items =
     map (\<lambda>(d, h). (h, map (descriptor w)
                          (py_set w (case fd d of Some l \<Rightarrow> l | None \<Rightarrow> [])))) items"

text \<open>
  Two sample mappings: one with \<^verbatim>\<open>userspace\<close> as its only key, one that gives the
  kernel domain a name the table does not know.
\<close>

definition userspace_fields :: "string \<Rightarrow> string list option" where
  "userspace_fields = [''userspace'' \<mapsto> [''vpid'', ''vtid'', ''vpid'']]"

definition bogus_kernel_fields :: "string \<Rightarrow> string list option" where
  "bogus_kernel_fields = [''kernel'' \<mapsto> [''bogus''], ''userspace'' \<mapsto> [''vpid'']]"

text \<open>
  The sample arguments with one kernel event and the mapping that gives the kernel domain
  an unknown name.
\<close>

definition bogus_kernel_args :: setup_args where
  "bogus_kernel_args = kernel_args\<lparr>context_fields := FieldDict bogus_kernel_fields\<rparr>"

section \<open>Properties\<close>

subsection \<open>Helper lemmas\<close>

lemmas world_eval =
  healthy_world_def world_with_pid_file_def stale_session_world_def world_with_process_def

lemmas string_eval =
  strip_def strip_newlines_def strip_chars_def isspace_def isdigit_def isdigit_char_def
  decimal_value_def int_of_digit_string_def isdecimal_char_def path_join_def
  pid_file_path_def truthy_def

lemmas io_eval = ask_def ok_def raise_def seq_def Let_def

lemma decimal_value_nonneg_aux:
  "0 \<le> acc \<Longrightarrow> list_all isdecimal_char s \<Longrightarrow>
   0 \<le> foldl (\<lambda>acc c. 10 * acc + (int (of_char c) - 48)) acc s"
  by (induction s arbitrary: acc) (auto simp: isdecimal_char_def)

lemma decimal_value_nonneg: "list_all isdecimal_char s \<Longrightarrow> 0 \<le> decimal_value s"
  by (simp add: decimal_value_def decimal_value_nonneg_aux)

lemma decimal_isdigit: "s \<noteq> [] \<Longrightarrow> list_all isdecimal_char s \<Longrightarrow> isdigit s"
  by (simp add: isdigit_def isdigit_char_def list_all_iff)

lemma get_lttng_home_eq:
  "get_lttng_home w tr =
     (if truthy (environ_get w tr ''LTTNG_HOME'')
      then (environ_get w tr ''LTTNG_HOME'', tr @ [GetEnv ''LTTNG_HOME''])
      else (environ_get w (tr @ [GetEnv ''LTTNG_HOME'']) ''HOME'',
            tr @ [GetEnv ''LTTNG_HOME'', GetEnv ''HOME'']))"
  by (simp add: get_lttng_home_def ask_def)

subsection \<open>The environment probes\<close>

lemma get_session_daemon_pid_eq:
  "get_lttng_home w tr = (home, t1) \<Longrightarrow>
   get_session_daemon_pid w tr =
     (case home of
        None \<Rightarrow> (Inr None, t1)
      | Some h \<Rightarrow>
          if h = [] then (Inr None, t1)
          else if \<not> path_isfile w t1 (pid_file_path h)
          then (Inr None, t1 @ [IsFile (pid_file_path h)])
          else
            let pid = strip (file_read w (t1 @ [IsFile (pid_file_path h)]) (pid_file_path h))
            in (if \<not> isdigit pid then Inr None
                else if list_all isdecimal_char pid \<and> length pid \<le> 4300
                then Inr (Some (decimal_value pid))
                else Inl (ValueError pid),
                t1 @ [IsFile (pid_file_path h), ReadFile (pid_file_path h)]))"
  by (simp add: get_session_daemon_pid_def ask_def truthy_def Let_def int_of_digit_string_def
        split: option.splits)

text \<open>
  C7, as amended. \<open>get_session_daemon_pid\<close> returns \<open>None\<close> when the home is not
  resolved (\<^verbatim>\<open>LTTNG_HOME\<close> and \<^verbatim>\<open>HOME\<close> both unset or empty), when the PID file is
  absent, and when the content of the file, stripped of surrounding whitespace, is empty
  or has a character that is not a digit. When the stripped content consists of at most
  4300 decimal digits, it returns the number they denote in base ten, which is never
  negative but may be zero.
\<close>

theorem get_session_daemon_pid_cases:
  "fst (get_lttng_home w tr) =
     (if truthy (environ_get w tr ''LTTNG_HOME'') then environ_get w tr ''LTTNG_HOME''
      else environ_get w (tr @ [GetEnv ''LTTNG_HOME'']) ''HOME'')
   \<and> (\<not> truthy (fst (get_lttng_home w tr)) \<longrightarrow>
        fst (get_session_daemon_pid w tr) = Inr None)
   \<and> (get_lttng_home w tr = (Some h, t1) \<and> h \<noteq> [] \<longrightarrow>
        (\<not> path_isfile w t1 (pid_file_path h) \<longrightarrow>
           fst (get_session_daemon_pid w tr) = Inr None)
      \<and> (path_isfile w t1 (pid_file_path h)
          \<and> pid = strip (file_read w (t1 @ [IsFile (pid_file_path h)]) (pid_file_path h)) \<longrightarrow>
           (\<not> isdigit pid \<longrightarrow> fst (get_session_daemon_pid w tr) = Inr None)
         \<and> (pid \<noteq> [] \<and> list_all isdecimal_char pid \<and> length pid \<le> 4300 \<longrightarrow>
              fst (get_session_daemon_pid w tr) = Inr (Some (decimal_value pid))
              \<and> 0 \<le> decimal_value pid)))
   \<and> decimal_value [] = 0
   \<and> decimal_value (s @ [c]) = 10 * decimal_value s + (int (of_char c) - 48)"
proof -
  obtain home t where g: "get_lttng_home w tr = (home, t)" by fastforce
  note eq = get_session_daemon_pid_eq [OF g]
  have a: "fst (get_lttng_home w tr) =
     (if truthy (environ_get w tr ''LTTNG_HOME'') then environ_get w tr ''LTTNG_HOME''
      else environ_get w (tr @ [GetEnv ''LTTNG_HOME'']) ''HOME'')"
    by (simp add: get_lttng_home_eq)
  have b: "\<not> truthy (fst (get_lttng_home w tr)) \<longrightarrow>
        fst (get_session_daemon_pid w tr) = Inr None"
    using g eq by (auto simp: truthy_def split: option.splits)
  have c: "get_lttng_home w tr = (Some h, t1) \<and> h \<noteq> [] \<longrightarrow>
        (\<not> path_isfile w t1 (pid_file_path h) \<longrightarrow>
           fst (get_session_daemon_pid w tr) = Inr None)
      \<and> (path_isfile w t1 (pid_file_path h)
          \<and> pid = strip (file_read w (t1 @ [IsFile (pid_file_path h)]) (pid_file_path h)) \<longrightarrow>
           (\<not> isdigit pid \<longrightarrow> fst (get_session_daemon_pid w tr) = Inr None)
         \<and> (pid \<noteq> [] \<and> list_all isdecimal_char pid \<and> length pid \<le> 4300 \<longrightarrow>
              fst (get_session_daemon_pid w tr) = Inr (Some (decimal_value pid))
              \<and> 0 \<le> decimal_value pid))"
    using g eq by (auto simp: Let_def decimal_isdigit decimal_value_nonneg)
  have d: "decimal_value [] = 0
     \<and> decimal_value (s @ [c]) = 10 * decimal_value s + (int (of_char c) - 48)"
    by (simp add: decimal_value_def)
  show ?thesis using a b c d by blast
qed

text \<open>
  A PID file under \<^verbatim>\<open>/home/u\<close> holding \<^verbatim>\<open>4242\<close> between a no-break space and a newline
  gives the PID 4242.
\<close>

theorem get_session_daemon_pid_cases_witness:
  "get_lttng_home (world_with_pid_file ([CHR 0xA0] @ ''4242'' @ [CHR 0x0A])) [] =
     (Some ''/home/u'', [GetEnv ''LTTNG_HOME'', GetEnv ''HOME''])
   \<and> fst (get_session_daemon_pid (world_with_pid_file ([CHR 0xA0] @ ''4242'' @ [CHR 0x0A])) [])
       = Inr (Some 4242)"
proof -
  let ?w = "world_with_pid_file ([CHR 0xA0] @ ''4242'' @ [CHR 0x0A])"
  let ?t = "[GetEnv ''LTTNG_HOME'', GetEnv ''HOME'']"
  have g: "get_lttng_home ?w [] = (Some ''/home/u'', ?t)"
    by (simp add: get_lttng_home_def ask_def world_eval string_eval)
  have f: "path_isfile ?w ?t (pid_file_path ''/home/u'')"
    by (simp add: world_eval string_eval)
  have p: "''4242'' = strip (file_read ?w (?t @ [IsFile (pid_file_path ''/home/u'')])
                              (pid_file_path ''/home/u''))"
    by (simp add: world_eval string_eval)
  have d: "''4242'' \<noteq> [] \<and> list_all isdecimal_char ''4242'' \<and> length ''4242'' \<le> 4300"
    by (simp add: isdecimal_char_def)
  have v: "decimal_value ''4242'' = 4242" by (simp add: decimal_value_def)
  from get_session_daemon_pid_cases [of ?w "[]" "''/home/u''" ?t "''4242''"] g f p d
  have "fst (get_session_daemon_pid ?w []) = Inr (Some (decimal_value ''4242''))"
    by blast
  then show ?thesis using g v by simp
qed

text \<open>
  C7 as stated fails: a PID file holding \<^verbatim>\<open>0\<close>, which is not a positive integer,
  does not give \<open>None\<close> but the PID 0.
\<close>

theorem get_session_daemon_pid_zero:
  "get_session_daemon_pid (world_with_pid_file ''0'') [] =
     (Inr (Some 0), [GetEnv ''LTTNG_HOME'', GetEnv ''HOME'',
                     IsFile ''/home/u/.lttng/lttng-sessiond.pid'',
                     ReadFile ''/home/u/.lttng/lttng-sessiond.pid''])"
  by (simp add: get_session_daemon_pid_def get_lttng_home_def ask_def world_eval string_eval
        Let_def)

text \<open>
  Beside the claim: a stripped content of digits that are not all decimal, or of more than
  4300 digits, passes the \<^verbatim>\<open>isdigit\<close> test and makes \<^verbatim>\<open>int\<close> raise; so does a PID
  file holding a superscript two.
\<close>

lemma get_session_daemon_pid_value_error:
  "get_lttng_home w tr = (Some h, t1) \<Longrightarrow> h \<noteq> [] \<Longrightarrow> path_isfile w t1 (pid_file_path h) \<Longrightarrow>
   pid = strip (file_read w (t1 @ [IsFile (pid_file_path h)]) (pid_file_path h)) \<Longrightarrow>
   isdigit pid \<Longrightarrow> \<not> (list_all isdecimal_char pid \<and> length pid \<le> 4300) \<Longrightarrow>
   fst (get_session_daemon_pid w tr) = Inl (ValueError pid)"
  by (auto simp: get_session_daemon_pid_eq Let_def)

lemma get_session_daemon_pid_superscript:
  "fst (get_session_daemon_pid (world_with_pid_file [CHR 0xB2]) [])
     = Inl (ValueError [CHR 0xB2])"
  by (simp add: get_session_daemon_pid_def get_lttng_home_def ask_def world_eval string_eval
        Let_def)

text \<open>
  C3. \<open>is_session_daemon_unreachable\<close> is false, without running \<^verbatim>\<open>ps\<close>, when no PID
  is recorded. With a recorded PID it runs \<^verbatim>\<open>ps -o comm=\<close> on it and is true exactly
  when \<^verbatim>\<open>ps\<close> returns 1 (no such process) or the stripped command name it prints is
  not \<^verbatim>\<open>lttng-sessiond\<close>; so it is false exactly for a process that exists under that
  name. An error of the PID lookup passes through.
\<close>

theorem is_session_daemon_unreachable_cases:
  "(fst (get_session_daemon_pid w tr) = Inr None \<longrightarrow>
      is_session_daemon_unreachable w tr = (Inr False, snd (get_session_daemon_pid w tr)))
   \<and> (get_session_daemon_pid w tr = (Inr (Some p), t1) \<longrightarrow>
      is_session_daemon_unreachable w tr =
        (Inr (fst (run_ps w t1 p) = 1 \<or> strip (snd (run_ps w t1 p)) \<noteq> ''lttng-sessiond''),
         t1 @ [RunPs p]))
   \<and> (get_session_daemon_pid w tr = (Inl e, t1) \<longrightarrow>
      is_session_daemon_unreachable w tr = (Inl e, t1))"
  by (auto simp add: is_session_daemon_unreachable_def ask_def
        split: prod.splits option.splits sum.splits)

lemma recorded_pid_4242:
  "get_session_daemon_pid (world_with_process a) [] =
     (Inr (Some 4242), [GetEnv ''LTTNG_HOME'', GetEnv ''HOME'',
                        IsFile ''/home/u/.lttng/lttng-sessiond.pid'',
                        ReadFile ''/home/u/.lttng/lttng-sessiond.pid''])"
  by (simp add: get_session_daemon_pid_def get_lttng_home_def ask_def world_eval string_eval
        Let_def)

text \<open>
  No PID file: reachable. PID 4242 recorded: unreachable when \<^verbatim>\<open>ps\<close> finds no such
  process or finds \<^verbatim>\<open>bash\<close>, reachable when it finds \<^verbatim>\<open>lttng-sessiond\<close>.
\<close>

theorem is_session_daemon_unreachable_cases_witness:
  "fst (is_session_daemon_unreachable healthy_world []) = Inr False
   \<and> fst (is_session_daemon_unreachable (world_with_process (1, [])) []) = Inr True
   \<and> fst (is_session_daemon_unreachable (world_with_process (0, ''bash'' @ [CHR 0x0A])) [])
       = Inr True
   \<and> fst (is_session_daemon_unreachable
            (world_with_process (0, ''lttng-sessiond'' @ [CHR 0x0A])) []) = Inr False"
proof -
  let ?t = "[GetEnv ''LTTNG_HOME'', GetEnv ''HOME'',
             IsFile ''/home/u/.lttng/lttng-sessiond.pid'',
             ReadFile ''/home/u/.lttng/lttng-sessiond.pid'']"
  have none: "fst (get_session_daemon_pid healthy_world []) = Inr None"
    by (simp add: get_session_daemon_pid_def get_lttng_home_def ask_def world_eval string_eval
        Let_def)
  have a: "fst (is_session_daemon_unreachable healthy_world []) = Inr False"
    using is_session_daemon_unreachable_cases [of healthy_world "[]"] none by simp
  have b: "fst (is_session_daemon_unreachable (world_with_process (1, [])) []) = Inr True"
    using is_session_daemon_unreachable_cases [of "world_with_process (1, [])" "[]" 4242 ?t]
      recorded_pid_4242 [of "(1, [])"]
    by (simp add: world_eval)
  have c: "fst (is_session_daemon_unreachable
                  (world_with_process (0, ''bash'' @ [CHR 0x0A])) []) = Inr True"
    using is_session_daemon_unreachable_cases
            [of "world_with_process (0, ''bash'' @ [CHR 0x0A])" "[]" 4242 ?t]
      recorded_pid_4242 [of "(0, ''bash'' @ [CHR 0x0A])"]
    by (simp add: world_eval string_eval)
  have d: "fst (is_session_daemon_unreachable
                  (world_with_process (0, ''lttng-sessiond'' @ [CHR 0x0A])) []) = Inr False"
    using is_session_daemon_unreachable_cases
            [of "world_with_process (0, ''lttng-sessiond'' @ [CHR 0x0A])" "[]" 4242 ?t]
      recorded_pid_4242 [of "(0, ''lttng-sessiond'' @ [CHR 0x0A])"]
    by (simp add: world_eval string_eval)
  show ?thesis using a b c d by simp
qed

subsection \<open>Stop and destroy\<close>

text \<open>
  C8. For every session name, \<open>stop\<close> raises the error carrying \<open>strerror\<close> of the
  result exactly when \<^verbatim>\<open>lttng.stop\<close> returns a negative result and \<open>ignore_error\<close> is
  false, and returns normally in every other case, so also on a negative result with
  \<open>ignore_error\<close> true; \<open>destroy\<close> does the same with \<^verbatim>\<open>lttng.destroy\<close>. Each makes
  its one call to the daemon.
\<close>

theorem stop_destroy_raise_iff:
  "(fst (stop w n ig tr) =
      Inl (RuntimeError (''failed to stop tracing: '' @ strerror w (lttng_stop w tr n))))
     = (lttng_stop w tr n < 0 \<and> \<not> ig)
   \<and> (fst (stop w n ig tr) = Inr ()) = (\<not> (lttng_stop w tr n < 0 \<and> \<not> ig))
   \<and> (fst (destroy w n ig tr) =
      Inl (RuntimeError (''failed to destroy tracing session: '' @
             strerror w (lttng_destroy w tr n))))
     = (lttng_destroy w tr n < 0 \<and> \<not> ig)
   \<and> (fst (destroy w n ig tr) = Inr ()) = (\<not> (lttng_destroy w tr n < 0 \<and> \<not> ig))
   \<and> snd (stop w n ig tr) = tr @ [Stop n]
   \<and> snd (destroy w n ig tr) = tr @ [Destroy n]"
  by (simp add: stop_def destroy_def ask_def ok_def raise_def)

text \<open>
  Against a daemon whose stop and destroy return -1: with \<open>ignore_error\<close> the calls
  return normally, without it they raise.
\<close>

theorem stop_destroy_raise_iff_witness:
  "fst (stop (healthy_world\<lparr>lttng_stop := \<lambda>_ _. -1\<rparr>) ''s1'' True []) = Inr ()
   \<and> fst (stop (healthy_world\<lparr>lttng_stop := \<lambda>_ _. -1\<rparr>) ''s1'' False [])
       = Inl (RuntimeError ''failed to stop tracing: daemon error'')
   \<and> fst (destroy (healthy_world\<lparr>lttng_destroy := \<lambda>_ _. -1\<rparr>) ''s1'' True []) = Inr ()
   \<and> fst (destroy (healthy_world\<lparr>lttng_destroy := \<lambda>_ _. -1\<rparr>) ''s1'' False [])
       = Inl (RuntimeError ''failed to destroy tracing session: daemon error'')"
  using stop_destroy_raise_iff [of "healthy_world\<lparr>lttng_stop := \<lambda>_ _. -1\<rparr>" "''s1''" True "[]"]
        stop_destroy_raise_iff [of "healthy_world\<lparr>lttng_stop := \<lambda>_ _. -1\<rparr>" "''s1''" False "[]"]
        stop_destroy_raise_iff [of "healthy_world\<lparr>lttng_destroy := \<lambda>_ _. -1\<rparr>" "''s1''" True "[]"]
        stop_destroy_raise_iff [of "healthy_world\<lparr>lttng_destroy := \<lambda>_ _. -1\<rparr>" "''s1''" False "[]"]
  by (simp add: healthy_world_def)

subsection \<open>Creating the session\<close>

text \<open>
  C9. When \<^verbatim>\<open>lttng.create\<close> returns -28 and the destroy of the stale session returns
  a negative result, \<open>create_session\<close> raises the error of the destroy at once: the
  trace ends with that destroy, and there is no second create.
\<close>

theorem create_session_destroy_failure:
  "lttng_create w tr n p = -28 \<Longrightarrow> lttng_destroy w (tr @ [Create n p]) n < 0 \<Longrightarrow>
   create_session w n p tr =
     (Inl (RuntimeError (''failed to destroy tracing session: '' @
             strerror w (lttng_destroy w (tr @ [Create n p]) n))),
      tr @ [Create n p, Destroy n])"
  by (simp add: create_session_def seq_def destroy_def ask_def ok_def raise_def)

theorem create_session_destroy_failure_witness:
  "lttng_create (stale_session_world (-5)) [] ''s2'' ''/tmp/s2'' = -28
   \<and> lttng_destroy (stale_session_world (-5)) [Create ''s2'' ''/tmp/s2''] ''s2'' < 0
   \<and> create_session (stale_session_world (-5)) ''s2'' ''/tmp/s2'' [] =
       (Inl (RuntimeError ''failed to destroy tracing session: daemon error''),
        [Create ''s2'' ''/tmp/s2'', Destroy ''s2''])"
  using create_session_destroy_failure [of "stale_session_world (-5)" "[]" "''s2''" "''/tmp/s2''"]
  by (simp add: world_eval)

text \<open>
  C2, as amended. A first result other than -28 ends \<open>create_session\<close> after that one
  create: it raises if the result is negative and returns otherwise. On a first result
  of -28 the stale session is destroyed and, provided that destroy does not return a
  negative result, the session is created a second time and never a third: the result
  of the second create decides, and any negative one (another -28 included) raises.
\<close>

theorem create_session_retry:
  "(lttng_create w tr n p \<noteq> -28 \<longrightarrow>
      create_session w n p tr =
        (if lttng_create w tr n p < 0
         then Inl (RuntimeError (''session creation failed: '' @
                     strerror w (lttng_create w tr n p)))
         else Inr (),
         tr @ [Create n p]))
   \<and> (lttng_create w tr n p = -28 \<and> 0 \<le> lttng_destroy w (tr @ [Create n p]) n \<longrightarrow>
      create_session w n p tr =
        (if lttng_create w (tr @ [Create n p, Destroy n]) n p < 0
         then Inl (RuntimeError (''session creation failed: '' @
                     strerror w (lttng_create w (tr @ [Create n p, Destroy n]) n p)))
         else Inr (),
         tr @ [Create n p, Destroy n, Create n p]))"
  by (simp add: create_session_def seq_def destroy_def ask_def ok_def raise_def)

text \<open>
  With a stale session whose destroy succeeds there are two creates; when every create
  returns -28 there are still only two, and the second is fatal; a first result of -1
  is fatal after one create.
\<close>

theorem create_session_retry_witness:
  "create_session (stale_session_world 0) ''s1'' ''/tmp/s1'' [] =
     (Inr (), [Create ''s1'' ''/tmp/s1'', Destroy ''s1'', Create ''s1'' ''/tmp/s1''])
   \<and> create_session (healthy_world\<lparr>lttng_create := \<lambda>_ _ _. -28\<rparr>) ''s1'' ''/tmp/s1'' [] =
     (Inl (RuntimeError ''session creation failed: daemon error''),
      [Create ''s1'' ''/tmp/s1'', Destroy ''s1'', Create ''s1'' ''/tmp/s1''])
   \<and> create_session (healthy_world\<lparr>lttng_create := \<lambda>_ _ _. -1\<rparr>) ''s1'' ''/tmp/s1'' [] =
     (Inl (RuntimeError ''session creation failed: daemon error''),
      [Create ''s1'' ''/tmp/s1''])"
  using create_session_retry [of "stale_session_world 0" "[]" "''s1''" "''/tmp/s1''"]
        create_session_retry [of "healthy_world\<lparr>lttng_create := \<lambda>_ _ _. -28\<rparr>" "[]" "''s1''"
                                 "''/tmp/s1''"]
        create_session_retry [of "healthy_world\<lparr>lttng_create := \<lambda>_ _ _. -1\<rparr>" "[]" "''s1''"
                                 "''/tmp/s1''"]
  by (simp add: world_eval)

text \<open>
  C2 as stated fails: the first create returns -28 and the destroy of the stale session
  returns -1; then creation is not retried at all, the trace holds a single create.
\<close>

theorem create_session_no_retry:
  "create_session (stale_session_world (-1)) ''s1'' ''/tmp/s1'' [] =
     (Inl (RuntimeError ''failed to destroy tracing session: daemon error''),
      [Create ''s1'' ''/tmp/s1'', Destroy ''s1''])"
  by (simp add: create_session_def destroy_def io_eval world_eval)


subsection \<open>How the trace grows\<close>


lemma py_set_set: "set (py_set w xs) = set xs"
  by (simp add: py_set_def Let_def)


lemma grows_by_refl: "grows_by P tr tr"
  by (simp add: grows_by_def)

lemma grows_by_iff: "grows_by P tr tr' = (\<exists>ext. tr' = tr @ ext \<and> list_all P ext)"
  unfolding grows_by_def
  by (metis append_eq_conv_conj append_take_drop_id length_append le_add1)

lemma grows_by_snoc: "P c \<Longrightarrow> grows_by P tr (tr @ [c])"
  by (simp add: grows_by_iff)

lemma grows_by_trans: "grows_by P a b \<Longrightarrow> grows_by P b c \<Longrightarrow> grows_by P a c"
  by (auto simp: grows_by_iff)

lemma grows_by_mono: "grows_by P a b \<Longrightarrow> (\<And>c. P c \<Longrightarrow> Q c) \<Longrightarrow> grows_by Q a b"
  by (auto simp: grows_by_iff list_all_iff)

lemma seq_grows:
  assumes "\<And>t. grows_by P t (snd (m t))" and "\<And>x t. grows_by P t (snd (f x t))"
  shows "grows_by P tr (snd (seq m f tr))"
proof (cases "m tr")
  case (Pair r t1)
  have g: "grows_by P tr t1" using assms(1) [of tr] Pair by simp
  show ?thesis
  proof (cases r)
    case (Inl e) with Pair g show ?thesis by (simp add: seq_def)
  next
    case (Inr x)
    with Pair have "snd (seq m f tr) = snd (f x t1)" by (simp add: seq_def)
    with g assms(2) [of t1 x] show ?thesis by (auto intro: grows_by_trans)
  qed
qed

lemma ok_grows: "grows_by P tr (snd (ok x tr))"
  by (simp add: ok_def grows_by_refl)

lemma raise_grows: "grows_by P tr (snd (raise e tr))"
  by (simp add: raise_def grows_by_refl)

lemma get_session_daemon_pid_grows:
  "grows_by is_check_call tr (snd (get_session_daemon_pid w tr))"
proof -
  obtain home t where g: "get_lttng_home w tr = (home, t)" by fastforce
  then have "t = tr @ [GetEnv ''LTTNG_HOME''] \<or> t = tr @ [GetEnv ''LTTNG_HOME'', GetEnv ''HOME'']"
    by (auto simp: get_lttng_home_eq split: if_splits)
  then show ?thesis
    by (auto simp: get_session_daemon_pid_eq [OF g] Let_def grows_by_iff split: option.splits)
qed

lemma is_session_daemon_unreachable_grows:
  "grows_by is_check_call tr (snd (is_session_daemon_unreachable w tr))"
proof (cases "get_session_daemon_pid w tr")
  case (Pair pid t1)
  then have "grows_by is_check_call tr t1" using get_session_daemon_pid_grows [of tr w] by simp
  then show ?thesis using Pair
    by (auto simp: is_session_daemon_unreachable_def ask_def grows_by_iff
          split: prod.splits sum.splits option.splits)
qed

lemma ensure_session_daemon_grows:
  "grows_by is_check_call tr (snd (ensure_session_daemon w tr))"
proof -
  define t2 where "t2 = (if lttng_session_daemon_alive w tr = 0
     then tr @ [SessionDaemonAlive, RunSessiond] else tr @ [SessionDaemonAlive])"
  have a: "grows_by is_check_call tr t2" by (simp add: t2_def grows_by_iff)
  obtain u t3 where u: "is_session_daemon_unreachable w t2 = (u, t3)" by fastforce
  then have b: "grows_by is_check_call t2 t3"
    using is_session_daemon_unreachable_grows [of t2 w] by simp
  have c: "grows_by is_check_call t3 (t3 @ [SessionDaemonAlive])" by (simp add: grows_by_snoc)
  have "snd (ensure_session_daemon w tr) = t3 \<or> snd (ensure_session_daemon w tr) = t3 @ [SessionDaemonAlive]"
    using u by (cases u)
      (auto simp: ensure_session_daemon_def ask_def ok_def raise_def seq_def Let_def t2_def
            split: if_splits)
  then show ?thesis using a b c by (auto intro: grows_by_trans)
qed

lemma create_session_grows:
  "grows_by is_create_call tr (snd (create_session w n p tr))"
  by (simp add: create_session_def destroy_def io_eval grows_by_iff)

lemma create_handle_grows:
  "grows_by is_domain_call tr (snd (create_handle w n d tr))"
  by (simp add: create_handle_def io_eval grows_by_iff split: option.splits)

lemma enable_channel_grows:
  "grows_by is_domain_call tr (snd (enable_channel w h c tr))"
  by (simp add: enable_channel_def io_eval grows_by_iff)

lemma enable_events_grows:
  "grows_by is_domain_call tr (snd (enable_events w h es cn tr))"
proof (induction es arbitrary: tr)
  case Nil show ?case by (simp add: ok_grows)
next
  case (Cons e es)
  have "grows_by is_domain_call tr (tr @ [EnableEvent h e cn])" by (simp add: grows_by_snoc)
  with Cons [of "tr @ [EnableEvent h e cn]"] show ?case
    by (auto simp: ask_def raise_def intro: grows_by_trans)
qed

lemma setup_domain_grows:
  "grows_by is_domain_call tr (snd (setup_domain w en n d c es tr))"
  unfolding setup_domain_def
  by (auto intro!: seq_grows ok_grows create_handle_grows enable_channel_grows enable_events_grows)

lemma add_context_list_grows:
  "grows_by is_add_context_call tr (snd (add_context_list w h cs tr))"
proof (induction cs arbitrary: tr)
  case Nil show ?case by (simp add: ok_grows)
next
  case (Cons c cs)
  have "grows_by is_add_context_call tr (tr @ [AddContext h c])" by (simp add: grows_by_snoc)
  with Cons [of "tr @ [AddContext h c]"] show ?case
    by (auto simp: ask_def raise_def intro: grows_by_trans)
qed

lemma add_context_grows:
  "grows_by is_add_context_call tr (snd (add_context w cd tr))"
proof (induction cd arbitrary: tr)
  case Nil show ?case by (simp add: ok_grows)
next
  case (Cons hc cd)
  obtain h cs where hc: "hc = (h, cs)" by (cases hc)
  show ?case unfolding hc add_context.simps
    by (intro seq_grows add_context_list_grows Cons)
qed


subsection \<open>The steps of setup\<close>

lemma configure_session_grows:
  "grows_by is_session_call tr (snd (configure_session w a p tr))"
  unfolding configure_session_def Let_def
  by (intro seq_grows ok_grows)
     (auto intro!: seq_grows ok_grows raise_grows split: sum.splits
           intro: grows_by_mono [OF create_session_grows] grows_by_mono [OF setup_domain_grows]
                  grows_by_mono [OF add_context_grows]
           simp: is_session_call_def)

lemma check_kernel_tracer_eq:
  "check_kernel_tracer w ev tr =
     (if 0 < names_len ev then
        (if fst (run_lttng_list_kernel w tr) \<noteq> 0
         then Inl (RuntimeError (kernel_tracer_message
                     (strip_newlines (snd (run_lttng_list_kernel w tr)))))
         else Inr (),
         tr @ [RunLttngListKernel])
      else (Inr (), tr))"
  by (simp add: check_kernel_tracer_def is_kernel_tracer_available_def io_eval
        split: prod.splits)

lemma setup_lttng_steps:
  "session_name a \<noteq> [] \<Longrightarrow>
   \<not> (path_isdir w tr (path_join (base_path a) (session_name a)) \<and> \<not> append_trace a) \<Longrightarrow>
   setup_lttng w a tr =
     seq (ensure_session_daemon w) (\<lambda>_.
     seq (check_kernel_tracer w (kernel_events a)) (\<lambda>_.
     configure_session w a (path_join (base_path a) (session_name a))))
       (tr @ [IsDir (path_join (base_path a) (session_name a))])"
  by (auto simp add: setup_lttng_def ask_def Let_def)




lemmas world_eval2 = world_eval no_kernel_tracer_world_def

lemmas args_eval = sample_args_def kernel_args_def no_events_args_def

lemma healthy_ensure:
  "ensure_session_daemon healthy_world [IsDir ''/tmp/s1''] = (Inr (), healthy_checks)"
  "ensure_session_daemon no_kernel_tracer_world [IsDir ''/tmp/s1''] = (Inr (), healthy_checks)"
  by (simp_all add: ensure_session_daemon_def is_session_daemon_unreachable_def
        get_session_daemon_pid_def get_lttng_home_def io_eval world_eval2 string_eval
        healthy_checks_def)

subsection \<open>Validation, the kernel tracer, and a session without events\<close>

text \<open>
  C6. With an empty session name \<^verbatim>\<open>setup\<close> raises without a single call to the
  outside: the trace is unchanged. With a session name, when the directory
  \<^verbatim>\<open>os.path.join(base_path, session_name)\<close> exists and \<open>append_trace\<close> is false, it
  raises the error that names this path, and the only call made is the directory test:
  no call to the daemon.
\<close>

theorem setup_validation:
  "(session_name a = [] \<longrightarrow>
      setup_lttng w a tr = (Inl (RuntimeError ''empty session name''), tr))
   \<and> (session_name a \<noteq> []
        \<and> path_isdir w tr (path_join (base_path a) (session_name a)) \<and> \<not> append_trace a \<longrightarrow>
      setup_lttng w a tr =
        (Inl (RuntimeError
           (''trace directory already exists, use the append option to append to it: '' @
            path_join (base_path a) (session_name a))),
         tr @ [IsDir (path_join (base_path a) (session_name a))]))"
  by (simp add: setup_lttng_def ask_def raise_def dir_exists_message_def Let_def)

text \<open>
  The sample session with an empty name, and with \<^verbatim>\<open>/tmp/s1\<close> already on disk.
\<close>

theorem setup_validation_witness:
  "setup_lttng healthy_world (sample_args\<lparr>session_name := []\<rparr>) [] =
     (Inl (RuntimeError ''empty session name''), [])
   \<and> setup_lttng (healthy_world\<lparr>path_isdir := \<lambda>_ p. p = ''/tmp/s1''\<rparr>) sample_args [] =
     (Inl (RuntimeError
        ''trace directory already exists, use the append option to append to it: /tmp/s1''),
      [IsDir ''/tmp/s1''])"
  using setup_validation [of "sample_args\<lparr>session_name := []\<rparr>" healthy_world "[]"]
        setup_validation [of sample_args "healthy_world\<lparr>path_isdir := \<lambda>_ p. p = ''/tmp/s1''\<rparr>" "[]"]
  by (simp add: sample_args_def healthy_world_def path_join_def)

lemma not_in_grown:
  assumes "grows_by P tr tr'" and "\<not> P c"
  shows "c \<notin> set (drop (length tr) tr')"
  using assms by (auto simp: grows_by_iff list_all_iff)

lemma kernel_probe_first:
  assumes "RunLttngListKernel \<in> set (drop (length tr) (snd (setup_lttng w a tr)))"
  shows "0 < names_len (kernel_events a)
     \<and> (\<exists>t1 rest. ensure_session_daemon w (tr @ [IsDir (path_join (base_path a) (session_name a))])
                     = (Inr (), t1)
          \<and> grows_by is_check_call (tr @ [IsDir (path_join (base_path a) (session_name a))]) t1
          \<and> snd (setup_lttng w a tr) = t1 @ RunLttngListKernel # rest)"
proof -
  let ?p = "path_join (base_path a) (session_name a)"
  let ?t0 = "tr @ [IsDir ?p]"
  have ne: "session_name a \<noteq> []"
    using assms by (auto simp: setup_lttng_def raise_def split: if_splits)
  have nd: "\<not> (path_isdir w tr ?p \<and> \<not> append_trace a)"
    using assms ne by (auto simp: setup_lttng_def raise_def ask_def Let_def split: if_splits)
  note steps = setup_lttng_steps [OF ne nd]
  obtain r t1 where e: "ensure_session_daemon w ?t0 = (r, t1)" by fastforce
  have g1: "grows_by is_check_call ?t0 t1"
    using ensure_session_daemon_grows [of ?t0 w] e by simp
  then obtain ext where ext: "t1 = tr @ IsDir ?p # ext" "list_all is_check_call ext"
    by (auto simp: grows_by_iff)
  have no1: "RunLttngListKernel \<notin> set (drop (length tr) t1)"
    using ext by (auto simp: list_all_iff)
  show ?thesis
  proof (cases r)
    case (Inl err)
    then have "snd (setup_lttng w a tr) = t1" using steps e by (simp add: seq_def)
    with assms no1 show ?thesis by simp
  next
    case (Inr u)
    show ?thesis
    proof (cases "0 < names_len (kernel_events a)")
      case False
      then have "snd (setup_lttng w a tr) = snd (configure_session w a ?p t1)"
        using steps e Inr by (simp add: seq_def check_kernel_tracer_eq)
      moreover obtain ext2 where "snd (configure_session w a ?p t1) = t1 @ ext2"
          "list_all is_session_call ext2"
        using configure_session_grows [of t1 w a ?p] by (auto simp: grows_by_iff)
      ultimately have "snd (setup_lttng w a tr) = tr @ IsDir ?p # ext @ ext2"
          and "list_all is_session_call ext2"
        using ext by simp_all
      with assms ext(2) have False
        by (auto simp: list_all_iff is_session_call_def)
      then show ?thesis ..
    next
      case True
      have "\<exists>rest. snd (setup_lttng w a tr) = t1 @ RunLttngListKernel # rest"
      proof (cases "fst (run_lttng_list_kernel w t1) \<noteq> 0")
        case True
        with \<open>0 < names_len (kernel_events a)\<close> steps e Inr show ?thesis
          by (simp add: seq_def check_kernel_tracer_eq)
      next
        case False
        with \<open>0 < names_len (kernel_events a)\<close> steps e Inr
        have "snd (setup_lttng w a tr) = snd (configure_session w a ?p (t1 @ [RunLttngListKernel]))"
          by (simp add: seq_def check_kernel_tracer_eq)
        then show ?thesis
          using configure_session_grows [of "t1 @ [RunLttngListKernel]" w a ?p]
          by (auto simp: grows_by_iff)
      qed
      with True e Inr g1 show ?thesis by auto
    qed
  qed
qed

lemma kernel_probe_unavailable:
  assumes "session_name a \<noteq> []"
    and "\<not> (path_isdir w tr (path_join (base_path a) (session_name a)) \<and> \<not> append_trace a)"
    and "0 < names_len (kernel_events a)"
    and "ensure_session_daemon w (tr @ [IsDir (path_join (base_path a) (session_name a))])
           = (Inr (), t1)"
    and "fst (run_lttng_list_kernel w t1) \<noteq> 0"
  shows "setup_lttng w a tr =
           (Inl (RuntimeError (kernel_tracer_message
                   (strip_newlines (snd (run_lttng_list_kernel w t1))))),
            t1 @ [RunLttngListKernel])
         \<and> list_all (\<lambda>c. \<not> is_config_call c) (drop (length tr) (t1 @ [RunLttngListKernel]))"
proof -
  let ?p = "path_join (base_path a) (session_name a)"
  have "grows_by is_check_call (tr @ [IsDir ?p]) t1"
    using ensure_session_daemon_grows [of "tr @ [IsDir ?p]" w] assms(4) by simp
  then obtain ext where ext: "t1 = tr @ IsDir ?p # ext" "list_all is_check_call ext"
    by (auto simp: grows_by_iff)
  have "\<And>c. is_check_call c \<Longrightarrow> \<not> is_config_call c" by (case_tac c) simp_all
  then have "list_all (\<lambda>c. \<not> is_config_call c) (drop (length tr) (t1 @ [RunLttngListKernel]))"
    using ext by (auto simp: list_all_iff)
  moreover have "setup_lttng w a tr =
           (Inl (RuntimeError (kernel_tracer_message
                   (strip_newlines (snd (run_lttng_list_kernel w t1))))),
            t1 @ [RunLttngListKernel])"
    using setup_lttng_steps [OF assms(1,2)] assms(3-5)
    by (simp add: seq_def check_kernel_tracer_eq)
  ultimately show ?thesis by simp
qed

lemma strip_chars_decomp:
  "\<exists>pre post. s = pre @ strip_chars P s @ post \<and> list_all P pre \<and> list_all P post"
proof -
  let ?d = "dropWhile P s"
  have d: "?d = rev (dropWhile P (rev ?d)) @ rev (takeWhile P (rev ?d))"
    by (metis rev_append rev_rev_ident takeWhile_dropWhile_id)
  have "s = takeWhile P s @ ?d" by simp
  with d have "s = takeWhile P s @ strip_chars P s @ rev (takeWhile P (rev ?d))"
    by (simp add: strip_chars_def)
  moreover have "list_all P (takeWhile P s)"
    by (auto simp: list_all_iff dest: set_takeWhileD)
  moreover have "list_all P (rev (takeWhile P (rev ?d)))"
    by (auto simp: list_all_iff dest: set_takeWhileD)
  ultimately show ?thesis by blast
qed

lemma strip_newlines_decomp:
  "\<exists>k1 k2. s = replicate k1 (CHR 0x0A) @ strip_newlines s @ replicate k2 (CHR 0x0A)"
proof -
  obtain pre post where d: "s = pre @ strip_newlines s @ post"
      "list_all (\<lambda>c. c = CHR 0x0A) pre" "list_all (\<lambda>c. c = CHR 0x0A) post"
    using strip_chars_decomp [of s "\<lambda>c. c = CHR 0x0A"] by (auto simp: strip_newlines_def)
  have "pre = replicate (length pre) (CHR 0x0A)" "post = replicate (length post) (CHR 0x0A)"
    using d(2,3) by (auto simp: list_all_iff intro: replicate_eqI)
  with d(1) show ?thesis by metis
qed

lemma ensure_session_daemon_passed:
  "(ensure_session_daemon w tr = (Inr (), t1)) =
     (\<exists>t3. is_session_daemon_unreachable w
             (tr @ (if lttng_session_daemon_alive w tr = 0
                    then [SessionDaemonAlive, RunSessiond] else [SessionDaemonAlive]))
             = (Inr False, t3)
           \<and> lttng_session_daemon_alive w t3 \<noteq> 0
           \<and> t1 = t3 @ [SessionDaemonAlive])"
  by (auto simp: ensure_session_daemon_def io_eval split: prod.splits sum.splits)

text \<open>
  C5. If \<^verbatim>\<open>setup\<close> runs \<^verbatim>\<open>lttng list -k\<close> at all, then there are kernel events and the
  daemon checks have run before it and have passed: after the directory test, the
  liveness test and, if no daemon was alive, the spawn, the unreachability check returned
  false by calls of the checks only and the second liveness test did not return 0; the
  probe is the very next call. If the probe then returns a code other than 0,
  \<^verbatim>\<open>setup\<close> raises the error whose message is the fixed diagnostic around the standard
  error text of the probe, which is that text but for newlines before and after it, and
  stops at the probe: no channel, event or context call has been made.
\<close>

theorem kernel_tracer_check:
  "(RunLttngListKernel \<in> set (drop (length tr) (snd (setup_lttng w a tr))) \<longrightarrow>
      0 < names_len (kernel_events a)
      \<and> (\<exists>t2 t3 rest.
            t2 = (tr @ [IsDir (path_join (base_path a) (session_name a))])
                 @ (if lttng_session_daemon_alive w
                         (tr @ [IsDir (path_join (base_path a) (session_name a))]) = 0
                    then [SessionDaemonAlive, RunSessiond] else [SessionDaemonAlive])
          \<and> is_session_daemon_unreachable w t2 = (Inr False, t3)
          \<and> grows_by is_check_call t2 t3
          \<and> lttng_session_daemon_alive w t3 \<noteq> 0
          \<and> snd (setup_lttng w a tr) = t3 @ SessionDaemonAlive # RunLttngListKernel # rest))
   \<and> (session_name a \<noteq> []
        \<and> \<not> (path_isdir w tr (path_join (base_path a) (session_name a)) \<and> \<not> append_trace a)
        \<and> 0 < names_len (kernel_events a)
        \<and> is_session_daemon_unreachable w
             ((tr @ [IsDir (path_join (base_path a) (session_name a))])
              @ (if lttng_session_daemon_alive w
                      (tr @ [IsDir (path_join (base_path a) (session_name a))]) = 0
                 then [SessionDaemonAlive, RunSessiond] else [SessionDaemonAlive]))
             = (Inr False, t)
        \<and> lttng_session_daemon_alive w t \<noteq> 0
        \<and> run_lttng_list_kernel w (t @ [SessionDaemonAlive]) = (code, stderr)
        \<and> code \<noteq> 0 \<longrightarrow>
      setup_lttng w a tr =
        (Inl (RuntimeError
           (''kernel tracer is not available: '' @ strip_newlines stderr @ [CHR 0x0A] @
              ''  cannot use kernel events:'' @ [CHR 0x0A] @
              ''    '' @ [CHR 0x27] @ ''ros2 trace'' @ [CHR 0x27] @ '' command: cannot use '' @
                [CHR 0x27] @ ''-k'' @ [CHR 0x27] @ '' option'' @ [CHR 0x0A] @
              ''    '' @ [CHR 0x27] @ ''Trace'' @ [CHR 0x27] @ '' action: cannot set '' @
                [CHR 0x27] @ ''events_kernel'' @ [CHR 0x27] @ ''/'' @
                [CHR 0x27] @ ''events-kernel'' @ [CHR 0x27] @ '' list'' @ [CHR 0x0A] @
              ''  install the kernel tracer, e.g., on Ubuntu, install lttng-modules-dkms'' @
                [CHR 0x0A] @
              ''  see: https://github.com/ros2/ros2_tracing#building'')),
         t @ [SessionDaemonAlive, RunLttngListKernel])
      \<and> list_all (\<lambda>c. \<not> is_config_call c)
           (drop (length tr) (t @ [SessionDaemonAlive, RunLttngListKernel]))
      \<and> (\<exists>k1 k2. stderr = replicate k1 (CHR 0x0A) @ strip_newlines stderr
                             @ replicate k2 (CHR 0x0A)))"
proof -
  let ?p = "path_join (base_path a) (session_name a)"
  let ?t0 = "tr @ [IsDir ?p]"
  let ?t2 = "?t0 @ (if lttng_session_daemon_alive w ?t0 = 0
                    then [SessionDaemonAlive, RunSessiond] else [SessionDaemonAlive])"
  have first: "0 < names_len (kernel_events a)
      \<and> (\<exists>t2 t3 rest. t2 = ?t2
          \<and> is_session_daemon_unreachable w t2 = (Inr False, t3)
          \<and> grows_by is_check_call t2 t3
          \<and> lttng_session_daemon_alive w t3 \<noteq> 0
          \<and> snd (setup_lttng w a tr) = t3 @ SessionDaemonAlive # RunLttngListKernel # rest)"
    if "RunLttngListKernel \<in> set (drop (length tr) (snd (setup_lttng w a tr)))"
  proof -
    from kernel_probe_first [OF that] obtain t1 rest where
      k: "0 < names_len (kernel_events a)" "ensure_session_daemon w ?t0 = (Inr (), t1)"
         "snd (setup_lttng w a tr) = t1 @ RunLttngListKernel # rest"
      by blast
    from k(2) obtain t3 where
      t3: "is_session_daemon_unreachable w ?t2 = (Inr False, t3)"
          "lttng_session_daemon_alive w t3 \<noteq> 0" "t1 = t3 @ [SessionDaemonAlive]"
      unfolding ensure_session_daemon_passed by blast
    have "grows_by is_check_call ?t2 t3"
      using is_session_daemon_unreachable_grows [of ?t2 w] t3(1) by simp
    with k t3 show ?thesis by simp
  qed
  have second: "setup_lttng w a tr =
        (Inl (RuntimeError
           (''kernel tracer is not available: '' @ strip_newlines stderr @ [CHR 0x0A] @
              ''  cannot use kernel events:'' @ [CHR 0x0A] @
              ''    '' @ [CHR 0x27] @ ''ros2 trace'' @ [CHR 0x27] @ '' command: cannot use '' @
                [CHR 0x27] @ ''-k'' @ [CHR 0x27] @ '' option'' @ [CHR 0x0A] @
              ''    '' @ [CHR 0x27] @ ''Trace'' @ [CHR 0x27] @ '' action: cannot set '' @
                [CHR 0x27] @ ''events_kernel'' @ [CHR 0x27] @ ''/'' @
                [CHR 0x27] @ ''events-kernel'' @ [CHR 0x27] @ '' list'' @ [CHR 0x0A] @
              ''  install the kernel tracer, e.g., on Ubuntu, install lttng-modules-dkms'' @
                [CHR 0x0A] @
              ''  see: https://github.com/ros2/ros2_tracing#building'')),
         t @ [SessionDaemonAlive, RunLttngListKernel])
      \<and> list_all (\<lambda>c. \<not> is_config_call c)
           (drop (length tr) (t @ [SessionDaemonAlive, RunLttngListKernel]))
      \<and> (\<exists>k1 k2. stderr = replicate k1 (CHR 0x0A) @ strip_newlines stderr
                             @ replicate k2 (CHR 0x0A))"
    if h: "session_name a \<noteq> []" "\<not> (path_isdir w tr ?p \<and> \<not> append_trace a)"
      "0 < names_len (kernel_events a)"
      "is_session_daemon_unreachable w ?t2 = (Inr False, t)"
      "lttng_session_daemon_alive w t \<noteq> 0"
      "run_lttng_list_kernel w (t @ [SessionDaemonAlive]) = (code, stderr)" "code \<noteq> 0"
  proof -
    have e: "ensure_session_daemon w ?t0 = (Inr (), t @ [SessionDaemonAlive])"
      unfolding ensure_session_daemon_passed using h(4,5) by simp
    have f: "fst (run_lttng_list_kernel w (t @ [SessionDaemonAlive])) \<noteq> 0"
      using h(6,7) by simp
    have s: "snd (run_lttng_list_kernel w (t @ [SessionDaemonAlive])) = stderr"
      using h(6) by simp
    note k = kernel_probe_unavailable [OF h(1) h(2) h(3) e f]
    show ?thesis
    proof (intro conjI)
      show "setup_lttng w a tr =
        (Inl (RuntimeError
           (''kernel tracer is not available: '' @ strip_newlines stderr @ [CHR 0x0A] @
              ''  cannot use kernel events:'' @ [CHR 0x0A] @
              ''    '' @ [CHR 0x27] @ ''ros2 trace'' @ [CHR 0x27] @ '' command: cannot use '' @
                [CHR 0x27] @ ''-k'' @ [CHR 0x27] @ '' option'' @ [CHR 0x0A] @
              ''    '' @ [CHR 0x27] @ ''Trace'' @ [CHR 0x27] @ '' action: cannot set '' @
                [CHR 0x27] @ ''events_kernel'' @ [CHR 0x27] @ ''/'' @
                [CHR 0x27] @ ''events-kernel'' @ [CHR 0x27] @ '' list'' @ [CHR 0x0A] @
              ''  install the kernel tracer, e.g., on Ubuntu, install lttng-modules-dkms'' @
                [CHR 0x0A] @
              ''  see: https://github.com/ros2/ros2_tracing#building'')),
         t @ [SessionDaemonAlive, RunLttngListKernel])"
        using k [THEN conjunct1] by (simp add: kernel_tracer_message_def s)
      show "list_all (\<lambda>c. \<not> is_config_call c)
           (drop (length tr) (t @ [SessionDaemonAlive, RunLttngListKernel]))"
        using k [THEN conjunct2] by simp
      show "\<exists>k1 k2. stderr = replicate k1 (CHR 0x0A) @ strip_newlines stderr
                             @ replicate k2 (CHR 0x0A)"
        by (rule strip_newlines_decomp)
    qed
  qed
  show ?thesis
  proof (rule conjI)
    show "RunLttngListKernel \<in> set (drop (length tr) (snd (setup_lttng w a tr))) \<longrightarrow>
      0 < names_len (kernel_events a)
      \<and> (\<exists>t2 t3 rest. t2 = ?t2
          \<and> is_session_daemon_unreachable w t2 = (Inr False, t3)
          \<and> grows_by is_check_call t2 t3
          \<and> lttng_session_daemon_alive w t3 \<noteq> 0
          \<and> snd (setup_lttng w a tr) = t3 @ SessionDaemonAlive # RunLttngListKernel # rest)"
      using first by blast
  next
    show "session_name a \<noteq> []
        \<and> \<not> (path_isdir w tr ?p \<and> \<not> append_trace a)
        \<and> 0 < names_len (kernel_events a)
        \<and> is_session_daemon_unreachable w ?t2 = (Inr False, t)
        \<and> lttng_session_daemon_alive w t \<noteq> 0
        \<and> run_lttng_list_kernel w (t @ [SessionDaemonAlive]) = (code, stderr)
        \<and> code \<noteq> 0 \<longrightarrow>
      setup_lttng w a tr =
        (Inl (RuntimeError
           (''kernel tracer is not available: '' @ strip_newlines stderr @ [CHR 0x0A] @
              ''  cannot use kernel events:'' @ [CHR 0x0A] @
              ''    '' @ [CHR 0x27] @ ''ros2 trace'' @ [CHR 0x27] @ '' command: cannot use '' @
                [CHR 0x27] @ ''-k'' @ [CHR 0x27] @ '' option'' @ [CHR 0x0A] @
              ''    '' @ [CHR 0x27] @ ''Trace'' @ [CHR 0x27] @ '' action: cannot set '' @
                [CHR 0x27] @ ''events_kernel'' @ [CHR 0x27] @ ''/'' @
                [CHR 0x27] @ ''events-kernel'' @ [CHR 0x27] @ '' list'' @ [CHR 0x0A] @
              ''  install the kernel tracer, e.g., on Ubuntu, install lttng-modules-dkms'' @
                [CHR 0x0A] @
              ''  see: https://github.com/ros2/ros2_tracing#building'')),
         t @ [SessionDaemonAlive, RunLttngListKernel])
      \<and> list_all (\<lambda>c. \<not> is_config_call c)
           (drop (length tr) (t @ [SessionDaemonAlive, RunLttngListKernel]))
      \<and> (\<exists>k1 k2. stderr = replicate k1 (CHR 0x0A) @ strip_newlines stderr
                             @ replicate k2 (CHR 0x0A))"
    proof (intro impI, elim conjE)
      assume "session_name a \<noteq> []" "\<not> (path_isdir w tr ?p \<and> \<not> append_trace a)"
        "0 < names_len (kernel_events a)"
        "is_session_daemon_unreachable w ?t2 = (Inr False, t)"
        "lttng_session_daemon_alive w t \<noteq> 0"
        "run_lttng_list_kernel w (t @ [SessionDaemonAlive]) = (code, stderr)" "code \<noteq> 0"
      then show "setup_lttng w a tr =
        (Inl (RuntimeError
           (''kernel tracer is not available: '' @ strip_newlines stderr @ [CHR 0x0A] @
              ''  cannot use kernel events:'' @ [CHR 0x0A] @
              ''    '' @ [CHR 0x27] @ ''ros2 trace'' @ [CHR 0x27] @ '' command: cannot use '' @
                [CHR 0x27] @ ''-k'' @ [CHR 0x27] @ '' option'' @ [CHR 0x0A] @
              ''    '' @ [CHR 0x27] @ ''Trace'' @ [CHR 0x27] @ '' action: cannot set '' @
                [CHR 0x27] @ ''events_kernel'' @ [CHR 0x27] @ ''/'' @
                [CHR 0x27] @ ''events-kernel'' @ [CHR 0x27] @ '' list'' @ [CHR 0x0A] @
              ''  install the kernel tracer, e.g., on Ubuntu, install lttng-modules-dkms'' @
                [CHR 0x0A] @
              ''  see: https://github.com/ros2/ros2_tracing#building'')),
         t @ [SessionDaemonAlive, RunLttngListKernel])
      \<and> list_all (\<lambda>c. \<not> is_config_call c)
           (drop (length tr) (t @ [SessionDaemonAlive, RunLttngListKernel]))
      \<and> (\<exists>k1 k2. stderr = replicate k1 (CHR 0x0A) @ strip_newlines stderr
                             @ replicate k2 (CHR 0x0A))"
        by (rule second)
    qed
  qed
qed

text \<open>
  One kernel event, a healthy daemon, and a probe that fails with a line of text.
\<close>

theorem kernel_tracer_check_witness:
  "setup_lttng no_kernel_tracer_world kernel_args [] =
     (Inl (RuntimeError
        (''kernel tracer is not available: Error: Unable to list kernel events'' @ [CHR 0x0A] @
         ''  cannot use kernel events:'' @ [CHR 0x0A] @
         ''    '' @ [CHR 0x27] @ ''ros2 trace'' @ [CHR 0x27] @ '' command: cannot use '' @
           [CHR 0x27] @ ''-k'' @ [CHR 0x27] @ '' option'' @ [CHR 0x0A] @
         ''    '' @ [CHR 0x27] @ ''Trace'' @ [CHR 0x27] @ '' action: cannot set '' @
           [CHR 0x27] @ ''events_kernel'' @ [CHR 0x27] @ ''/'' @
           [CHR 0x27] @ ''events-kernel'' @ [CHR 0x27] @ '' list'' @ [CHR 0x0A] @
         ''  install the kernel tracer, e.g., on Ubuntu, install lttng-modules-dkms'' @
           [CHR 0x0A] @
         ''  see: https://github.com/ros2/ros2_tracing#building'')),
      healthy_checks @ [RunLttngListKernel])
   \<and> list_all (\<lambda>c. \<not> is_config_call c) (healthy_checks @ [RunLttngListKernel])
   \<and> 0 < names_len (kernel_events kernel_args)"
proof -
  let ?w = no_kernel_tracer_world
  let ?t = "[IsDir ''/tmp/s1'', SessionDaemonAlive, GetEnv ''LTTNG_HOME'', GetEnv ''HOME'',
             IsFile ''/home/u/.lttng/lttng-sessiond.pid'']"
  let ?err = "''Error: Unable to list kernel events'' @ [CHR 0x0A]"
  have p: "path_join (base_path kernel_args) (session_name kernel_args) = ''/tmp/s1''"
    by (simp add: args_eval path_join_def)
  have hc: "healthy_checks = ?t @ [SessionDaemonAlive]" by (simp add: healthy_checks_def)
  have h1: "session_name kernel_args \<noteq> []" by (simp add: args_eval)
  have h2: "\<not> (path_isdir ?w [] ''/tmp/s1'' \<and> \<not> append_trace kernel_args)"
    by (simp add: world_eval2)
  have h3: "0 < names_len (kernel_events kernel_args)" by (simp add: args_eval names_len_def)
  have h4: "is_session_daemon_unreachable ?w
              (([] @ [IsDir ''/tmp/s1''])
               @ (if lttng_session_daemon_alive ?w ([] @ [IsDir ''/tmp/s1'']) = 0
                  then [SessionDaemonAlive, RunSessiond] else [SessionDaemonAlive]))
              = (Inr False, ?t)"
    by (simp add: is_session_daemon_unreachable_def get_session_daemon_pid_def
          get_lttng_home_def io_eval world_eval2 string_eval)
  have h5: "lttng_session_daemon_alive ?w ?t \<noteq> 0" by (simp add: world_eval2)
  have h6: "run_lttng_list_kernel ?w (?t @ [SessionDaemonAlive]) = (1, ?err)"
    by (simp add: world_eval2)
  have m: "strip_newlines ?err = ''Error: Unable to list kernel events''"
    by (simp add: string_eval)
  from kernel_tracer_check [of "[]" ?w kernel_args ?t 1 ?err, THEN conjunct2, unfolded p]
    h1 h2 h3 h4 h5 h6
  have "setup_lttng ?w kernel_args [] =
        (Inl (RuntimeError
           (''kernel tracer is not available: '' @ strip_newlines ?err @ [CHR 0x0A] @
              ''  cannot use kernel events:'' @ [CHR 0x0A] @
              ''    '' @ [CHR 0x27] @ ''ros2 trace'' @ [CHR 0x27] @ '' command: cannot use '' @
                [CHR 0x27] @ ''-k'' @ [CHR 0x27] @ '' option'' @ [CHR 0x0A] @
              ''    '' @ [CHR 0x27] @ ''Trace'' @ [CHR 0x27] @ '' action: cannot set '' @
                [CHR 0x27] @ ''events_kernel'' @ [CHR 0x27] @ ''/'' @
                [CHR 0x27] @ ''events-kernel'' @ [CHR 0x27] @ '' list'' @ [CHR 0x0A] @
              ''  install the kernel tracer, e.g., on Ubuntu, install lttng-modules-dkms'' @
                [CHR 0x0A] @
              ''  see: https://github.com/ros2/ros2_tracing#building'')),
         ?t @ [SessionDaemonAlive, RunLttngListKernel])
      \<and> list_all (\<lambda>c. \<not> is_config_call c)
           (drop (length ([]::trace)) (?t @ [SessionDaemonAlive, RunLttngListKernel]))"
    by simp
  then show ?thesis using h3 unfolding m hc by simp
qed




subsection \<open>Normalizing the context fields\<close>

lemma create_context_list_from_eq:
  "create_context_list_from w acc ns =
     (case List.find (\<lambda>n. context_map w n = None) ns of
        Some m \<Rightarrow> Inl (RuntimeError (''failed to find context type: '' @ m))
      | None \<Rightarrow> Inr (acc @ map (descriptor w) ns))"
  by (induction ns arbitrary: acc)
     (auto simp: context_field_name_to_type_def descriptor_def split: option.splits)

lemma create_context_list_eq:
  "create_context_list w ns =
     (case List.find (\<lambda>n. context_map w n = None) ns of
        Some m \<Rightarrow> Inl (RuntimeError (''failed to find context type: '' @ m))
      | None \<Rightarrow> Inr (map (descriptor w) ns))"
  by (simp add: create_context_list_def create_context_list_from_eq split: option.splits)

lemma create_context_list_resolved:
  "(\<forall>n\<in>set ns. context_map w n \<noteq> None) \<Longrightarrow>
   create_context_list w ns = Inr (map (descriptor w) ns)"
  by (simp add: create_context_list_eq find_None_iff split: option.splits)

lemma create_context_list_unresolved:
  assumes "\<exists>n\<in>set ns. context_map w n = None"
  shows "\<exists>m\<in>set ns. context_map w m = None
           \<and> create_context_list w ns = Inl (RuntimeError (''failed to find context type: '' @ m))"
proof (cases "List.find (\<lambda>n. context_map w n = None) ns")
  case None with assms show ?thesis by (auto simp: find_None_iff)
next
  case (Some m)
  then have "m \<in> set ns \<and> context_map w m = None" by (auto simp: find_Some_iff)
  with Some show ?thesis by (auto simp: create_context_list_eq)
qed

lemma create_context_list_error:
  assumes "create_context_list w ns = Inl e"
  shows "\<exists>m\<in>set ns. context_map w m = None
           \<and> e = RuntimeError (''failed to find context type: '' @ m)"
proof (cases "List.find (\<lambda>n. context_map w n = None) ns")
  case None with assms show ?thesis by (simp add: create_context_list_eq)
next
  case (Some m)
  then have "m \<in> set ns \<and> context_map w m = None" by (auto simp: find_Some_iff)
  with Some assms show ?thesis by (auto simp: create_context_list_eq)
qed






lemmas normalize_eval =
  normalize_contexts_dict_def enabled_handles_def create_context_list_def
  context_field_name_to_type_def py_set_def Let_def userspace_fields_def
  bogus_kernel_fields_def dict_of_enabled_def descriptor_def



lemma comprehension_first_fail:
  "\<forall>(d', h')\<in>set pre. \<exists>cl. val d' = Inr cl \<Longrightarrow> val d = Inl e \<Longrightarrow>
   contexts_comprehension val acc (pre @ (d, h) # post) = Inl e"
proof (induction pre arbitrary: acc)
  case Nil then show ?case by simp
next
  case (Cons it pre)
  obtain d' h' where it: "it = (d', h')" by (cases it)
  from Cons.prems(1) it obtain cl where cl: "val d' = Inr cl" by auto
  have "contexts_comprehension val (AList.update h' cl acc) (pre @ (d, h) # post) = Inl e"
    using Cons.prems by (intro Cons.IH) auto
  with it cl show ?case by simp
qed

lemma comprehension_cong:
  "\<forall>(d, h)\<in>set items. val d = val' d \<Longrightarrow>
   contexts_comprehension val acc items = contexts_comprehension val' acc items"
proof (induction items arbitrary: acc)
  case Nil then show ?case by simp
next
  case (Cons it items)
  obtain d h where it: "it = (d, h)" by (cases it)
  have v: "val d = val' d" using Cons.prems it by simp
  have r: "\<And>acc. contexts_comprehension val acc items = contexts_comprehension val' acc items"
    using Cons.prems by (intro Cons.IH) simp
  show ?case unfolding it by (simp add: v r split: sum.splits)
qed

lemma first_unresolved:
  assumes "\<exists>n\<in>set ns. context_map w n = None"
  shows "\<exists>m. List.find (\<lambda>n. context_map w n = None) ns = Some m \<and> m \<in> set ns
             \<and> context_map w m = None
             \<and> create_context_list w ns
                 = Inl (RuntimeError (''failed to find context type: '' @ m))"
proof (cases "List.find (\<lambda>n. context_map w n = None) ns")
  case None with assms show ?thesis by (auto simp: find_None_iff)
next
  case (Some m)
  then have "m \<in> set ns \<and> context_map w m = None" by (auto simp: find_Some_iff)
  with Some show ?thesis by (auto simp: create_context_list_eq)
qed

lemma setup_domain_handle:
  assumes "setup_domain w en n d c es t = (Inr ho, t')"
  shows "if en then ho = lttng_Handle w t n d \<and> ho \<noteq> None else ho = None \<and> t' = t"
proof (cases en)
  case False
  with assms show ?thesis by (auto simp: setup_domain_def ok_def)
next
  case True
  obtain hd where hd: "lttng_Handle w t n d = hd" by simp
  show ?thesis
  proof (cases hd)
    case None
    with True hd assms show ?thesis
      by (simp add: setup_domain_def create_handle_def io_eval)
  next
    case (Some x)
    with hd have h: "lttng_Handle w t n d = Some x" by simp
    with True assms have "ho = Some x"
      by (auto simp: setup_domain_def create_handle_def io_eval
            split: sum.splits prod.splits)
    with True h show ?thesis by simp
  qed
qed

lemma setup_normalization_error:
  assumes ne: "session_name a \<noteq> []"
    and nd: "\<not> (path_isdir w tr (path_join (base_path a) (session_name a)) \<and> \<not> append_trace a)"
    and e: "ensure_session_daemon w (tr @ [IsDir (path_join (base_path a) (session_name a))])
              = (Inr (), t0)"
    and k: "check_kernel_tracer w (kernel_events a) t0 = (Inr (), tk)"
    and c: "create_session w (session_name a) (path_join (base_path a) (session_name a)) tk
              = (Inr (), t1)"
    and u: "setup_domain w (length (names_to_set w (ros_events a)) > 0) (session_name a)
              domain_ust (channel_ust a) (create_events (names_to_set w (ros_events a))) t1
              = (Inr hu, t2)"
    and kd: "setup_domain w (length (names_to_set w (kernel_events a)) > 0) (session_name a)
              domain_kernel (channel_kernel a)
              (create_events (names_to_set w (kernel_events a))) t2
              = (Inr hk, t3)"
    and n: "normalize_contexts_dict w [(''kernel'', hk), (''userspace'', hu)]
              (fields_to_set w (context_fields a)) = Inl err"
  shows "setup_lttng w a tr = (Inl err, t3)
         \<and> list_all (\<lambda>c. \<not> is_add_context_call c) (drop (length tr) t3)"
proof -
  let ?p = "path_join (base_path a) (session_name a)"
  have "configure_session w a ?p tk = (Inl err, t3)"
    using c u kd n by (simp add: configure_session_def seq_def raise_def Let_def)
  then have s: "setup_lttng w a tr = (Inl err, t3)"
    using setup_lttng_steps [OF ne nd] e k by (simp add: seq_def)
  let ?Q = "\<lambda>c. \<not> is_add_context_call c"
  have q1: "\<And>c. is_check_call c \<Longrightarrow> ?Q c" by (case_tac c) simp_all
  have q2: "\<And>c. is_create_call c \<Longrightarrow> ?Q c" by (case_tac c) simp_all
  have q3: "\<And>c. is_domain_call c \<Longrightarrow> ?Q c" by (case_tac c) simp_all
  have g0: "grows_by ?Q tr (tr @ [IsDir ?p])" by (simp add: grows_by_snoc)
  have g1: "grows_by ?Q (tr @ [IsDir ?p]) t0"
    using grows_by_mono [OF ensure_session_daemon_grows [of "tr @ [IsDir ?p]" w] q1] e by simp
  have g2: "grows_by ?Q t0 tk"
    using k by (auto simp: check_kernel_tracer_eq grows_by_refl grows_by_snoc split: if_splits)
  have g3: "grows_by ?Q tk t1"
    using grows_by_mono [OF create_session_grows [of tk w "session_name a" ?p] q2] c by simp
  have g4: "grows_by ?Q t1 t2"
    using grows_by_mono [OF setup_domain_grows [of t1 w
            "length (names_to_set w (ros_events a)) > 0" "session_name a" domain_ust
            "channel_ust a" "create_events (names_to_set w (ros_events a))"] q3] u
    by simp
  have g5: "grows_by ?Q t2 t3"
    using grows_by_mono [OF setup_domain_grows [of t2 w
            "length (names_to_set w (kernel_events a)) > 0" "session_name a" domain_kernel
            "channel_kernel a" "create_events (names_to_set w (kernel_events a))"] q3] kd
    by simp
  have "grows_by ?Q tr t3"
    by (rule grows_by_trans [OF grows_by_trans [OF grows_by_trans [OF grows_by_trans
          [OF grows_by_trans [OF g0 g1] g2] g3] g4] g5])
  then have "list_all ?Q (drop (length tr) t3)" by (simp add: grows_by_def)
  with s show ?thesis by simp
qed

text \<open>
  C4, as amended. A name that does not resolve makes the normalization raise, with the
  error naming the first unresolvable name met, when it is to be applied to an enabled
  domain: a name of the flat set when some domain is enabled, or a name of the list of an
  enabled domain when the enabled domains before it in the handles have lists whose names
  all resolve. When all names of a list resolve, the list of descriptors has, name by
  name, the resolved type. In \<^verbatim>\<open>setup\<close>, the handles given to the normalization are the
  ones the two domains got (the handle \<^verbatim>\<open>lttng.Handle\<close> returned for a domain with
  events, \<^verbatim>\<open>None\<close> for a domain without), and when that normalization raises,
  \<^verbatim>\<open>setup\<close> raises the same error without a single \<^verbatim>\<open>lttng.add_context\<close> call. The
  result for a mapping depends only on what it supplies for the enabled domains, and with
  no enabled domain a flat set normalizes to the empty plan: names that are not to be
  applied to an enabled domain are never resolved.
\<close>

theorem unresolved_context_name:
  "(enabled_handles handles \<noteq> [] \<and> (\<exists>n\<in>set fs. context_map w n = None) \<longrightarrow>
      (\<exists>m. List.find (\<lambda>n. context_map w n = None) fs = Some m
         \<and> m \<in> set fs \<and> context_map w m = None
         \<and> normalize_contexts_dict w handles (FieldSet fs)
             = Inl (RuntimeError (''failed to find context type: '' @ m))))
   \<and> (enabled_handles handles = pre @ (d, h) # post
       \<and> (\<forall>(d', h')\<in>set pre. \<exists>l'. fd d' = Some l' \<and> (\<forall>n\<in>set l'. context_map w n \<noteq> None))
       \<and> fd d = Some l \<and> (\<exists>n\<in>set l. context_map w n = None) \<longrightarrow>
      (\<exists>m. List.find (\<lambda>n. context_map w n = None) (py_set w l) = Some m
         \<and> m \<in> set l \<and> context_map w m = None
         \<and> normalize_contexts_dict w handles (FieldDict fd)
             = Inl (RuntimeError (''failed to find context type: '' @ m))))
   \<and> ((\<forall>n\<in>set ns. context_map w n = Some (t n)) \<longrightarrow>
        create_context_list w ns = Inr (map (\<lambda>n. \<lparr>ctx = t n\<rparr>) ns))
   \<and> (session_name a \<noteq> []
       \<and> \<not> (path_isdir w tr (path_join (base_path a) (session_name a)) \<and> \<not> append_trace a)
       \<and> ensure_session_daemon w (tr @ [IsDir (path_join (base_path a) (session_name a))])
            = (Inr (), ta)
       \<and> check_kernel_tracer w (kernel_events a) ta = (Inr (), tk)
       \<and> create_session w (session_name a) (path_join (base_path a) (session_name a)) tk
            = (Inr (), tb)
       \<and> setup_domain w (length (names_to_set w (ros_events a)) > 0) (session_name a)
            domain_ust (channel_ust a) (create_events (names_to_set w (ros_events a))) tb
            = (Inr hu, tc)
       \<and> setup_domain w (length (names_to_set w (kernel_events a)) > 0) (session_name a)
            domain_kernel (channel_kernel a)
            (create_events (names_to_set w (kernel_events a))) tc
            = (Inr hk, td)
       \<and> normalize_contexts_dict w [(''kernel'', hk), (''userspace'', hu)]
            (fields_to_set w (context_fields a)) = Inl err \<longrightarrow>
      setup_lttng w a tr = (Inl err, td)
      \<and> list_all (\<lambda>c. \<not> is_add_context_call c) (drop (length tr) td)
      \<and> (if length (names_to_set w (ros_events a)) > 0
          then hu = lttng_Handle w tb (session_name a) domain_ust \<and> hu \<noteq> None
          else hu = None \<and> tc = tb)
      \<and> (if length (names_to_set w (kernel_events a)) > 0
          then hk = lttng_Handle w tc (session_name a) domain_kernel \<and> hk \<noteq> None
          else hk = None \<and> td = tc))
   \<and> ((\<forall>(d, h)\<in>set (enabled_handles handles). fd d = fd' d) \<longrightarrow>
        normalize_contexts_dict w handles (FieldDict fd)
          = normalize_contexts_dict w handles (FieldDict fd'))
   \<and> (enabled_handles handles = [] \<longrightarrow>
        normalize_contexts_dict w handles (FieldSet fs) = Inr [])"
proof -
  have flat: "\<exists>m. List.find (\<lambda>n. context_map w n = None) fs = Some m
         \<and> m \<in> set fs \<and> context_map w m = None
         \<and> normalize_contexts_dict w handles (FieldSet fs)
             = Inl (RuntimeError (''failed to find context type: '' @ m))"
    if ne: "enabled_handles handles \<noteq> []" and un: "\<exists>n\<in>set fs. context_map w n = None"
  proof -
    from first_unresolved [OF un] obtain m where
      m: "List.find (\<lambda>n. context_map w n = None) fs = Some m" "m \<in> set fs"
         "context_map w m = None"
         "create_context_list w fs = Inl (RuntimeError (''failed to find context type: '' @ m))"
      by blast
    obtain d h rest where "enabled_handles handles = (d, h) # rest"
      using ne by (cases "enabled_handles handles") auto
    then have "normalize_contexts_dict w handles (FieldSet fs)
                 = Inl (RuntimeError (''failed to find context type: '' @ m))"
      using m(4) by (simp add: normalize_contexts_dict_def)
    with m show ?thesis by blast
  qed
  let ?val = "\<lambda>fd d. case fd d of None \<Rightarrow> Inl (KeyError d)
                          | Some l \<Rightarrow> create_context_list w (py_set w l)"
  have dict: "\<exists>m. List.find (\<lambda>n. context_map w n = None) (py_set w l) = Some m
         \<and> m \<in> set l \<and> context_map w m = None
         \<and> normalize_contexts_dict w handles (FieldDict fd)
             = Inl (RuntimeError (''failed to find context type: '' @ m))"
    if en: "enabled_handles handles = pre @ (d, h) # post"
    and ok: "\<forall>(d', h')\<in>set pre. \<exists>l'. fd d' = Some l' \<and> (\<forall>n\<in>set l'. context_map w n \<noteq> None)"
    and l: "fd d = Some l" and un: "\<exists>n\<in>set l. context_map w n = None"
  proof -
    have "\<exists>n\<in>set (py_set w l). context_map w n = None" using un by (simp add: py_set_set)
    from first_unresolved [OF this] obtain m where
      m: "List.find (\<lambda>n. context_map w n = None) (py_set w l) = Some m" "m \<in> set l"
         "context_map w m = None"
         "create_context_list w (py_set w l)
            = Inl (RuntimeError (''failed to find context type: '' @ m))"
      by (auto simp: py_set_set)
    have p: "\<forall>(d', h')\<in>set pre. \<exists>cl. ?val fd d' = Inr cl"
      using ok by (auto simp: create_context_list_resolved py_set_set)
    have v: "?val fd d = Inl (RuntimeError (''failed to find context type: '' @ m))"
      using l m(4) by simp
    from comprehension_first_fail [of pre "?val fd", OF p v]
    have "normalize_contexts_dict w handles (FieldDict fd)
            = Inl (RuntimeError (''failed to find context type: '' @ m))"
      by (simp add: normalize_contexts_dict_def en)
    with m show ?thesis by blast
  qed
  have res: "create_context_list w ns = Inr (map (\<lambda>n. \<lparr>ctx = t n\<rparr>) ns)"
    if "\<forall>n\<in>set ns. context_map w n = Some (t n)"
  proof -
    have "create_context_list w ns = Inr (map (descriptor w) ns)"
      using that by (intro create_context_list_resolved) auto
    moreover have "map (descriptor w) ns = map (\<lambda>n. \<lparr>ctx = t n\<rparr>) ns"
      using that by (simp add: descriptor_def)
    ultimately show ?thesis by simp
  qed
  have indep: "normalize_contexts_dict w handles (FieldDict fd)
          = normalize_contexts_dict w handles (FieldDict fd')"
    if "\<forall>(d, h)\<in>set (enabled_handles handles). fd d = fd' d"
  proof -
    have "\<forall>(d, h)\<in>set (enabled_handles handles). ?val fd d = ?val fd' d"
      using that by auto
    from comprehension_cong [OF this] show ?thesis
      by (simp add: normalize_contexts_dict_def)
  qed
  have none: "normalize_contexts_dict w handles (FieldSet fs) = Inr []"
    if "enabled_handles handles = []"
    using that by (simp add: normalize_contexts_dict_def)
  have su: "setup_lttng w a tr = (Inl err, td)
      \<and> list_all (\<lambda>c. \<not> is_add_context_call c) (drop (length tr) td)
      \<and> (if length (names_to_set w (ros_events a)) > 0
          then hu = lttng_Handle w tb (session_name a) domain_ust \<and> hu \<noteq> None
          else hu = None \<and> tc = tb)
      \<and> (if length (names_to_set w (kernel_events a)) > 0
          then hk = lttng_Handle w tc (session_name a) domain_kernel \<and> hk \<noteq> None
          else hk = None \<and> td = tc)"
    if h: "session_name a \<noteq> []"
       "\<not> (path_isdir w tr (path_join (base_path a) (session_name a)) \<and> \<not> append_trace a)"
       "ensure_session_daemon w (tr @ [IsDir (path_join (base_path a) (session_name a))])
            = (Inr (), ta)"
       "check_kernel_tracer w (kernel_events a) ta = (Inr (), tk)"
       "create_session w (session_name a) (path_join (base_path a) (session_name a)) tk
            = (Inr (), tb)"
       "setup_domain w (length (names_to_set w (ros_events a)) > 0) (session_name a)
            domain_ust (channel_ust a) (create_events (names_to_set w (ros_events a))) tb
            = (Inr hu, tc)"
       "setup_domain w (length (names_to_set w (kernel_events a)) > 0) (session_name a)
            domain_kernel (channel_kernel a)
            (create_events (names_to_set w (kernel_events a))) tc
            = (Inr hk, td)"
       "normalize_contexts_dict w [(''kernel'', hk), (''userspace'', hu)]
            (fields_to_set w (context_fields a)) = Inl err"
  proof -
    note a = setup_normalization_error [OF h]
    note b = setup_domain_handle [OF h(6)]
    note c = setup_domain_handle [OF h(7)]
    show ?thesis
      by (rule conjI [OF a [THEN conjunct1] conjI [OF a [THEN conjunct2] conjI [OF b c]]])
  qed
  show ?thesis
    apply (intro conjI impI)
    subgoal using flat by blast
    subgoal using dict by blast
    subgoal using res by blast
    subgoal using su by blast
    subgoal using su by blast
    subgoal using su by blast
    subgoal using su by blast
    subgoal using indep by blast
    subgoal using none by blast
    done
qed

lemmas setup_eval =
  setup_domain_def create_handle_def enable_channel_def enable_events.simps create_events.simps
  names_to_set_def fields_to_set_def py_set_def channel_ust_def channel_kernel_def
  domain_ust_def domain_kernel_def create_session_def check_kernel_tracer_eq names_len_def

text \<open>
  A flat set with one unknown name and userspace enabled; a list of two known names; and
  the sample session with a kernel event and the unknown name supplied for the kernel
  domain: 15 calls, none of them an \<^verbatim>\<open>lttng.add_context\<close>.
\<close>

theorem unresolved_context_name_witness:
  "normalize_contexts_dict healthy_world [(''kernel'', None), (''userspace'', Some 7)]
     (FieldSet [''vpid'', ''bogus'']) = Inl (RuntimeError ''failed to find context type: bogus'')
   \<and> create_context_list healthy_world [''vpid'', ''vtid''] = Inr [\<lparr>ctx = 1\<rparr>, \<lparr>ctx = 2\<rparr>]
   \<and> fst (setup_lttng healthy_world bogus_kernel_args [])
       = Inl (RuntimeError ''failed to find context type: bogus'')
   \<and> list_all (\<lambda>c. \<not> is_add_context_call c) (snd (setup_lttng healthy_world bogus_kernel_args []))
   \<and> length (snd (setup_lttng healthy_world bogus_kernel_args [])) = 15"
proof -
  let ?w = healthy_world
  let ?a = bogus_kernel_args
  let ?hs = "[(''kernel'', None), (''userspace'', Some (7::nat))]"
  let ?t = "\<lambda>n. if n = ''vpid'' then 1 else (2::int)"
  let ?tk = "healthy_checks @ [RunLttngListKernel]"
  let ?tb = "?tk @ [Create ''s1'' ''/tmp/s1'']"
  let ?tc = "snd (setup_domain ?w (length (names_to_set ?w (ros_events ?a)) > 0) ''s1''
            domain_ust (channel_ust ?a) (create_events (names_to_set ?w (ros_events ?a))) ?tb)"
  let ?td = "snd (setup_domain ?w (length (names_to_set ?w (kernel_events ?a)) > 0) ''s1''
            domain_kernel (channel_kernel ?a)
            (create_events (names_to_set ?w (kernel_events ?a))) ?tc)"
  note inst = unresolved_context_name [where w = ?w and handles = ?hs
      and fs = "[''vpid'', ''bogus'']" and ns = "[''vpid'', ''vtid'']" and t = ?t
      and a = ?a and tr = "[]" and ta = healthy_checks and tk = ?tk and tb = ?tb
      and tc = ?tc and td = ?td and hu = "Some 8" and hk = "Some 12"
      and err = "RuntimeError ''failed to find context type: bogus''"]
  have e: "enabled_handles ?hs \<noteq> []" by (simp add: enabled_handles_def)
  have u: "\<exists>n\<in>set [''vpid'', ''bogus'']. context_map ?w n = None"
    by (simp add: healthy_world_def)
  have r: "\<forall>n\<in>set [''vpid'', ''vtid'']. context_map ?w n = Some (?t n)"
    by (simp add: healthy_world_def)
  from inst [THEN conjunct1] e u
  have "\<exists>m. List.find (\<lambda>n. context_map ?w n = None) [''vpid'', ''bogus''] = Some m
         \<and> m \<in> set [''vpid'', ''bogus''] \<and> context_map ?w m = None
         \<and> normalize_contexts_dict ?w ?hs (FieldSet [''vpid'', ''bogus''])
             = Inl (RuntimeError (''failed to find context type: '' @ m))"
    by blast
  then have a: "normalize_contexts_dict ?w ?hs (FieldSet [''vpid'', ''bogus''])
             = Inl (RuntimeError ''failed to find context type: bogus'')"
    by (auto simp: healthy_world_def)
  from inst [THEN conjunct2, THEN conjunct2, THEN conjunct1] r
  have "create_context_list ?w [''vpid'', ''vtid'']
          = Inr (map (\<lambda>n. \<lparr>ctx = ?t n\<rparr>) [''vpid'', ''vtid''])"
    by blast
  then have b: "create_context_list ?w [''vpid'', ''vtid''] = Inr [\<lparr>ctx = 1\<rparr>, \<lparr>ctx = 2\<rparr>]"
    by simp
  have p: "path_join (base_path ?a) ''s1'' = ''/tmp/s1''"
    and n: "session_name ?a = ''s1''"
    by (simp_all add: bogus_kernel_args_def args_eval path_join_def)
  have h1: "session_name ?a \<noteq> []" by (simp add: n)
  have h2: "\<not> (path_isdir ?w [] ''/tmp/s1'' \<and> \<not> append_trace ?a)"
    by (simp add: world_eval)
  have h3: "ensure_session_daemon ?w ([] @ [IsDir ''/tmp/s1'']) = (Inr (), healthy_checks)"
    using healthy_ensure(1) by simp
  have h4: "check_kernel_tracer ?w (kernel_events ?a) healthy_checks = (Inr (), ?tk)"
    by (simp add: check_kernel_tracer_eq bogus_kernel_args_def args_eval names_len_def
          world_eval)
  have h5: "create_session ?w ''s1'' ''/tmp/s1'' ?tk = (Inr (), ?tb)"
    by (simp add: create_session_def io_eval world_eval)
  have h6: "setup_domain ?w (length (names_to_set ?w (ros_events ?a)) > 0) ''s1''
            domain_ust (channel_ust ?a) (create_events (names_to_set ?w (ros_events ?a))) ?tb
            = (Inr (Some 8), ?tc)"
    by (simp add: setup_eval io_eval bogus_kernel_args_def args_eval world_eval
          healthy_checks_def)
  have h7: "setup_domain ?w (length (names_to_set ?w (kernel_events ?a)) > 0) ''s1''
            domain_kernel (channel_kernel ?a)
            (create_events (names_to_set ?w (kernel_events ?a))) ?tc
            = (Inr (Some 12), ?td)"
    by (simp add: setup_eval io_eval bogus_kernel_args_def args_eval world_eval
          healthy_checks_def)
  have h8: "normalize_contexts_dict ?w [(''kernel'', Some 12), (''userspace'', Some 8)]
            (fields_to_set ?w (context_fields ?a))
            = Inl (RuntimeError ''failed to find context type: bogus'')"
    by (simp add: normalize_eval fields_to_set_def bogus_kernel_args_def args_eval world_eval)
  from inst [THEN conjunct2, THEN conjunct2, THEN conjunct2, THEN conjunct1,
             unfolded n p] h1 h2 h3 h4 h5 h6 h7 h8
  have c: "setup_lttng ?w ?a [] = (Inl (RuntimeError ''failed to find context type: bogus''), ?td)
      \<and> list_all (\<lambda>c. \<not> is_add_context_call c) (drop (length ([]::trace)) ?td)"
    by blast
  have l: "length ?td = 15"
    by (simp add: setup_eval io_eval bogus_kernel_args_def args_eval world_eval
          healthy_checks_def)
  show ?thesis using a b c l by simp
qed

text \<open>
  C4 as stated fails: the mapping supplies the unknown name \<^verbatim>\<open>bogus\<close> for the kernel
  domain, which is disabled; the normalization succeeds.
\<close>

theorem disabled_domain_name_unchecked:
  "context_map healthy_world ''bogus'' = None
   \<and> normalize_contexts_dict healthy_world [(''kernel'', None), (''userspace'', Some 7)]
        (FieldDict bogus_kernel_fields) = Inr [(7, [\<lparr>ctx = 1\<rparr>])]"
  by (simp add: normalize_eval healthy_world_def)

end
